theory Spec2Isabelle
  imports Complex_Main "HOL-Library.Word" "HOL-Library.Monad_Syntax" "HOL-Library.Signed_Division"
begin

section \<open>Dense matrices and vectors\<close>

text \<open>
  The Eigen matrices of the source (\<^verbatim>\<open>ChMatrixDynamic<>\<close>, \<^verbatim>\<open>ChSparseMatrix\<close>,
  \<^verbatim>\<open>ChVectorDynamic<>\<close>, \<^verbatim>\<open>ChState\<close>) are modelled by their run-time shape and their
  coefficients. A vector is a matrix with one column. The scalars of the source are
  IEEE doubles; the model computes with the real numbers they approximate, so rounding
  is outside the model. Sparse and dense storage are not distinguished.
\<close>

datatype 'a mat = Matrix (rows: nat) (cols: nat) (coeff: "nat \<Rightarrow> nat \<Rightarrow> 'a")

text \<open>A matrix of a given shape; coefficients outside the shape do not exist and read as zero.\<close>

definition mk :: "nat \<Rightarrow> nat \<Rightarrow> (nat \<Rightarrow> nat \<Rightarrow> 'a) \<Rightarrow> ('a::zero) mat" where
  "mk r c f = Matrix r c (\<lambda>i j. if i < r \<and> j < c then f i j else 0)"

text \<open>\<^verbatim>\<open>M.setZero(r, c)\<close>, and \<^verbatim>\<open>M.resize(r, c)\<close> of a matrix that is emptied or about to be filled.\<close>

definition Zero :: "nat \<Rightarrow> nat \<Rightarrow> ('a::zero) mat" where
  "Zero r c = mk r c (\<lambda>i j. 0)"

text \<open>\<^verbatim>\<open>M.setZero()\<close>: the shape is kept.\<close>

definition setZero :: "('a::zero) mat \<Rightarrow> 'a mat" where
  "setZero M = Zero (rows M) (cols M)"

text \<open>\<^verbatim>\<open>M.setIdentity(r, c)\<close> and \<^verbatim>\<open>Eigen::MatrixXd::Identity(r, c)\<close>.\<close>

definition Identity :: "nat \<Rightarrow> nat \<Rightarrow> ('a::zero_neq_one) mat" where
  "Identity r c = mk r c (\<lambda>i j. if i = j then 1 else 0)"

text \<open>
  The arithmetic of Eigen. Eigen asserts that the shapes of the operands fit; the
  methods below check the shapes of the matrices they combine before they compute
  (\<open>None\<close> is the failed assertion), so the operators themselves are total.
\<close>

instantiation mat :: (comm_ring_1) times
begin
definition times_mat :: "'a mat \<Rightarrow> 'a mat \<Rightarrow> 'a mat" where
  "times_mat A B = mk (rows A) (cols B) (\<lambda>i j. \<Sum>k<cols A. coeff A i k * coeff B k j)"
instance ..
end

instantiation mat :: (comm_ring_1) plus
begin
definition plus_mat :: "'a mat \<Rightarrow> 'a mat \<Rightarrow> 'a mat" where
  "plus_mat A B = mk (rows A) (cols A) (\<lambda>i j. coeff A i j + coeff B i j)"
instance ..
end

instantiation mat :: (comm_ring_1) minus
begin
definition minus_mat :: "'a mat \<Rightarrow> 'a mat \<Rightarrow> 'a mat" where
  "minus_mat A B = mk (rows A) (cols A) (\<lambda>i j. coeff A i j - coeff B i j)"
instance ..
end

instantiation mat :: (comm_ring_1) uminus
begin
definition uminus_mat :: "'a mat \<Rightarrow> 'a mat" where
  "uminus_mat A = mk (rows A) (cols A) (\<lambda>i j. - coeff A i j)"
instance ..
end

text \<open>\<^verbatim>\<open>M * c\<close> for a scalar \<^verbatim>\<open>c\<close>.\<close>

definition scaled :: "('a::comm_ring_1) mat \<Rightarrow> 'a \<Rightarrow> 'a mat" where
  "scaled A c = mk (rows A) (cols A) (\<lambda>i j. coeff A i j * c)"

text \<open>\<^verbatim>\<open>M.transpose()\<close>.\<close>

definition transposed :: "('a::zero) mat \<Rightarrow> 'a mat" where
  "transposed A = mk (cols A) (rows A) (\<lambda>i j. coeff A j i)"

text \<open>\<^verbatim>\<open>M.block(r, c, nr, nc)\<close> read, and its special cases.\<close>

definition block :: "('a::zero) mat \<Rightarrow> nat \<Rightarrow> nat \<Rightarrow> nat \<Rightarrow> nat \<Rightarrow> 'a mat" where
  "block A r c nr nc = mk nr nc (\<lambda>i j. coeff A (r + i) (c + j))"

definition segment :: "('a::zero) mat \<Rightarrow> nat \<Rightarrow> nat \<Rightarrow> 'a mat" where
  "segment v r n = block v r 0 n 1"

definition head :: "('a::zero) mat \<Rightarrow> nat \<Rightarrow> 'a mat" where
  "head v n = segment v 0 n"

definition tail :: "('a::zero) mat \<Rightarrow> nat \<Rightarrow> 'a mat" where
  "tail v n = segment v (rows v - n) n"

definition col :: "('a::zero) mat \<Rightarrow> nat \<Rightarrow> 'a mat" where
  "col A j = block A 0 j (rows A) 1"

definition topRows :: "('a::zero) mat \<Rightarrow> nat \<Rightarrow> 'a mat" where
  "topRows A n = block A 0 0 n (cols A)"

text \<open>\<^verbatim>\<open>M.block(r, c, nr, nc) = B\<close> written, with \<^verbatim>\<open>nr\<close>, \<^verbatim>\<open>nc\<close> the shape of \<^verbatim>\<open>B\<close>.\<close>

definition set_block :: "'a mat \<Rightarrow> nat \<Rightarrow> nat \<Rightarrow> 'a mat \<Rightarrow> 'a mat" where
  "set_block A r c B = Matrix (rows A) (cols A)
     (\<lambda>i j. if r \<le> i \<and> i < r + rows B \<and> c \<le> j \<and> j < c + cols B \<and> i < rows A \<and> j < cols A
            then coeff B (i - r) (j - c) else coeff A i j)"

definition set_segment :: "'a mat \<Rightarrow> nat \<Rightarrow> 'a mat \<Rightarrow> 'a mat" where
  "set_segment v r w = set_block v r 0 w"

definition set_col :: "'a mat \<Rightarrow> nat \<Rightarrow> 'a mat \<Rightarrow> 'a mat" where
  "set_col A j v = set_block A 0 j v"

text \<open>The comma initialiser \<^verbatim>\<open>v << a, b\<close> of a column vector.\<close>

definition stacked :: "('a::zero) mat \<Rightarrow> 'a mat \<Rightarrow> 'a mat" where
  "stacked a b = mk (rows a + rows b) 1
     (\<lambda>i j. if i < rows a then coeff a i 0 else coeff b (i - rows a) 0)"

text \<open>The comma initialiser \<^verbatim>\<open>M << A, B, C, D\<close> of a matrix of two block rows.\<close>

definition blocks2x2 :: "('a::zero) mat \<Rightarrow> 'a mat \<Rightarrow> 'a mat \<Rightarrow> 'a mat \<Rightarrow> 'a mat" where
  "blocks2x2 A B C D = mk (rows A + rows C) (cols A + cols B)
     (\<lambda>i j. if i < rows A then (if j < cols A then coeff A i j else coeff B i (j - cols A))
            else (if j < cols C then coeff C (i - rows A) j else coeff D (i - rows A) (j - cols C)))"

text \<open>\<^verbatim>\<open>M.real()\<close> of a complex matrix.\<close>

definition real_part :: "complex mat \<Rightarrow> real mat" where
  "real_part A = mk (rows A) (cols A) (\<lambda>i j. Re (coeff A i j))"

text \<open>A matrix given by its rows, for concrete inputs.\<close>

definition of_rows :: "nat \<Rightarrow> ('a::zero) list list \<Rightarrow> 'a mat" where
  "of_rows c xss = mk (length xss) c (\<lambda>i j. xss ! i ! j)"

section \<open>Sub-items of the assembly\<close>

text \<open>
  Offsets are \<^verbatim>\<open>unsigned int\<close> in \<^verbatim>\<open>ChPhysicsItem\<close>, the counters of the assembly are
  \<^verbatim>\<open>int\<close>. The counters are modelled by unbounded integers (signed overflow is undefined
  in the source); an \<^verbatim>\<open>int\<close> added to an offset is converted to \<^verbatim>\<open>unsigned\<close> first.
  The fields \<open>DOF\<close>, \<open>DOF_w\<close>, \<open>DOC\<close>, \<open>DOC_c\<close>, \<open>DOC_d\<close> and \<open>Active\<close> hold what the virtual
  getters \<^verbatim>\<open>GetDOF()\<close>, \<^verbatim>\<open>GetDOF_w()\<close>, \<^verbatim>\<open>GetDOC()\<close>, \<^verbatim>\<open>GetDOC_c()\<close>, \<^verbatim>\<open>GetDOC_d()\<close> and
  \<^verbatim>\<open>IsActive()\<close> of the item return.
\<close>

record ChPhysicsItem =
  offset_x :: "32 word"
  offset_w :: "32 word"
  offset_L :: "32 word"

record ChItem = ChPhysicsItem +
  DOF :: int
  DOF_w :: int
  DOC :: int
  DOC_c :: int
  DOC_d :: int
  Active :: bool
  state_x :: "real mat"
  state_v :: "real mat"

record ChBody = ChItem +
  BodyFixed :: bool
  Sleeping :: bool
  Mass :: real
  Inertia :: "real mat"

datatype ChNodeFEA =
    ChNodeFEAxyz (node_mass: real)
  | ChNodeFEAxyzrot (node_mass: real) (node_inertia: "real mat")
  | ChNodeFEAother

record ChMesh = ChItem +
  Nodes :: "ChNodeFEA list"

section \<open>The assembly\<close>

text \<open>
  The floating frame of reference: position, rotation quaternion and rotation matrix,
  linear and angular velocity and acceleration (\<^verbatim>\<open>ChFrameMoving\<close>).
\<close>

record ChFrameMoving =
  Pos :: "real mat"
  Rot :: "real mat"
  Amatrix :: "real mat"
  Pos_dt :: "real mat"
  Wvel_loc :: "real mat"
  Pos_dtdt :: "real mat"
  Wacc_loc :: "real mat"

text \<open>The variables of the modal coordinates and the block that holds the tangent matrix.\<close>

record ChVariables =
  var_ndof :: int
  var_active :: bool

record ChVariablesGenericDiagonalMass = ChVariables +
  MassDiagonal :: "real mat"
  qb :: "real mat"
  fb :: "real mat"

record ChKblockGeneric =
  variables :: "ChVariables list"
  Kmatr :: "real mat"


text \<open>The part of the state that belongs to the parent class \<^verbatim>\<open>ChAssembly\<close>.\<close>

record ChAssembly = ChPhysicsItem +
  nbodies :: int
  nlinks :: int
  nmeshes :: int
  nphysicsitems :: int
  ncoords :: int
  ncoords_w :: int
  ndoc :: int
  ndoc_w :: int
  ndoc_w_C :: int
  ndoc_w_D :: int
  nsysvars :: int
  nsysvars_w :: int
  ndof :: int
  bodylist :: "ChBody list"
  linklist :: "ChItem list"
  meshlist :: "ChMesh list"
  otherphysicslist :: "ChItem list"
  ChTime :: real

record ChModalAssembly = ChAssembly +
  is_modal :: bool
  internal_nodes_update :: bool
  internal_bodylist :: "ChBody list"
  internal_linklist :: "ChItem list"
  internal_meshlist :: "ChMesh list"
  internal_otherphysicslist :: "ChItem list"
  n_boundary_bodies :: int
  n_boundary_links :: int
  n_boundary_meshes :: int
  n_boundary_physicsitems :: int
  n_boundary_coords :: int
  n_boundary_coords_w :: int
  n_boundary_doc :: int
  n_boundary_doc_w :: int
  n_boundary_doc_w_C :: int
  n_boundary_doc_w_D :: int
  n_boundary_sysvars :: int
  n_boundary_sysvars_w :: int
  n_boundary_dof :: int
  n_internal_bodies :: int
  n_internal_links :: int
  n_internal_meshes :: int
  n_internal_physicsitems :: int
  n_internal_coords :: int
  n_internal_coords_w :: int
  n_internal_doc :: int
  n_internal_doc_w :: int
  n_internal_doc_w_C :: int
  n_internal_doc_w_D :: int
  n_internal_sysvars :: int
  n_internal_sysvars_w :: int
  n_internal_dof :: int
  n_modes_coords_w :: int
  custom_F_modal :: "real mat"
  custom_F_full :: "real mat"
  modal_variables :: "ChVariablesGenericDiagonalMass option"
  modal_Hblock :: ChKblockGeneric
  modal_q :: "real mat"
  modal_q_dt :: "real mat"
  modal_q_dtdt :: "real mat"
  full_assembly_x_old :: "real mat"
  modes_assembly_x0 :: "real mat"
  modes_V :: "complex mat"
  modes_eig :: "complex mat"
  modes_freq :: "real mat"
  modes_damping_ratio :: "real mat"
  com_x :: "real mat"
  floating_frame_F :: ChFrameMoving
  floating_frame_F0 :: ChFrameMoving
  R_F :: "real mat"
  wloc_F :: "real mat"
  S :: "real mat"
  U :: "real mat"
  P_B1 :: "real mat"
  P_B2 :: "real mat"
  P_I1 :: "real mat"
  P_I2 :: "real mat"
  P_W :: "real mat"
  Y :: "real mat"
  full_M_loc :: "real mat"
  full_K_loc :: "real mat"
  full_R_loc :: "real mat"
  full_Cq_loc :: "real mat"
  Psi :: "real mat"
  Psi_S :: "real mat"
  Psi_D :: "real mat"
  M_red :: "real mat"
  K_red :: "real mat"
  R_red :: "real mat"
  Cq_red :: "real mat"
  O_B :: "real mat"
  V :: "real mat"
  O_F :: "real mat"
  V_acc :: "real mat"
  V_rmom :: "real mat"
  O_thetamom :: "real mat"
  V_F1 :: "real mat"
  V_F2 :: "real mat"
  V_F3 :: "real mat"
  M_sup :: "real mat"
  Ri_sup :: "real mat"
  Ki_sup :: "real mat"
  Km_sup :: "real mat"
  Kg_sup :: "real mat"
  Rm_sup :: "real mat"
  g_loc :: "real mat"
  g_quad :: "real mat"
  modal_M :: "real mat"
  modal_K :: "real mat"
  modal_R :: "real mat"
  modal_Cq :: "real mat"

text \<open>
  Code of the repository that is not part of the modelled file is a parameter of the
  model: the methods of the parent class \<^verbatim>\<open>ChAssembly\<close>, which see the \<^verbatim>\<open>ChAssembly\<close> part of
  the state only; the virtual methods of bodies, links, meshes and other physics items;
  the system descriptor that converts the items to matrices; the modal solver; the
  constructors \<^verbatim>\<open>ChStarMatrix33\<close> and \<^verbatim>\<open>ChMatrix33\<close> and the conversion \<^verbatim>\<open>Q_to_Rotv\<close>; the
  callbacks for custom forces. The mass center, the selection matrix and the pose of the
  floating frame are computed by \<^verbatim>\<open>ComputeMassCenter\<close>, \<^verbatim>\<open>CpmputeSelectionMatrix\<close> and
  \<^verbatim>\<open>UpdateFloatingFrameOfReference\<close> from the positions of bodies and nodes and from
  \<^verbatim>\<open>ChMesh::ComputeMassProperties\<close>, none of which the state holds: the values they
  compute are parameters too.
\<close>

text \<open>
  The sparse QR solver of Eigen is not part of the repository. After \<^verbatim>\<open>factorize(K)\<close> it
  reports a status, which \<open>qr_info\<close> gives for \<open>K\<close>, and \<^verbatim>\<open>solve(rhs)\<close> returns a vector
  with as many rows as \<open>K\<close> has columns, which \<open>qr_solve\<close> gives for \<open>K\<close> and \<open>rhs\<close>.
\<close>

datatype ComputationInfo = Success | NumericalIssue | NoConvergence | InvalidInput

record SparseQR =
  qr_info :: "real mat \<Rightarrow> ComputationInfo"
  qr_solve :: "real mat \<Rightarrow> real mat \<Rightarrow> real mat"

text \<open>The virtual methods of an item that the assembly calls.\<close>

record 'i item_methods =
  SetupInitial_of :: "'i \<Rightarrow> 'i"
  Update_of :: "'i \<Rightarrow> real \<Rightarrow> bool \<Rightarrow> 'i"
  IntStateGather_of ::
    "'i \<Rightarrow> 32 word \<Rightarrow> real mat \<Rightarrow> 32 word \<Rightarrow> real mat \<Rightarrow> real \<Rightarrow> real mat \<times> real mat \<times> real"
  IntStateScatter_of :: "'i \<Rightarrow> 32 word \<Rightarrow> real mat \<Rightarrow> 32 word \<Rightarrow> real mat \<Rightarrow> real \<Rightarrow> bool \<Rightarrow> 'i"
  IntStateGatherAcceleration_of :: "'i \<Rightarrow> 32 word \<Rightarrow> real mat \<Rightarrow> real mat"
  IntStateIncrement_of :: "'i \<Rightarrow> 32 word \<Rightarrow> real mat \<Rightarrow> real mat \<Rightarrow> 32 word \<Rightarrow> real mat \<Rightarrow> real mat"
  IntStateGetIncrement_of :: "'i \<Rightarrow> 32 word \<Rightarrow> real mat \<Rightarrow> real mat \<Rightarrow> 32 word \<Rightarrow> real mat \<Rightarrow> real mat"

text \<open>The settings of the modal solver: the number of modes that is requested.\<close>

record ChModalSolveUndamped =
  n_modes :: int

record collaborators =
  ChAssembly_Setup :: "ChAssembly \<Rightarrow> ChAssembly"
  link_Setup :: "ChItem \<Rightarrow> ChItem"
  mesh_Setup :: "ChMesh \<Rightarrow> ChMesh"
  item_Setup :: "ChItem \<Rightarrow> ChItem"
  ChAssembly_SetupInitial :: "ChAssembly \<Rightarrow> ChAssembly"
  ChAssembly_Update :: "bool \<Rightarrow> ChAssembly \<Rightarrow> ChAssembly"
  ChAssembly_IntStateGather ::
    "ChAssembly \<Rightarrow> 32 word \<Rightarrow> real mat \<Rightarrow> 32 word \<Rightarrow> real mat \<Rightarrow> real \<Rightarrow> real mat \<times> real mat \<times> real"
  ChAssembly_IntStateGatherAcceleration :: "ChAssembly \<Rightarrow> 32 word \<Rightarrow> real mat \<Rightarrow> real mat"
  ChAssembly_IntStateIncrement ::
    "ChAssembly \<Rightarrow> 32 word \<Rightarrow> real mat \<Rightarrow> real mat \<Rightarrow> 32 word \<Rightarrow> real mat \<Rightarrow> real mat"
  ChAssembly_IntStateGetIncrement ::
    "ChAssembly \<Rightarrow> 32 word \<Rightarrow> real mat \<Rightarrow> real mat \<Rightarrow> 32 word \<Rightarrow> real mat \<Rightarrow> real mat"
  bodies :: "ChBody item_methods"
  links :: "ChItem item_methods"
  meshes :: "ChMesh item_methods"
  others :: "ChItem item_methods"
  ConvertToMatrixForm :: "real \<Rightarrow> real \<Rightarrow> real \<Rightarrow> ChModalAssembly \<Rightarrow> real mat"
  ConvertToMatrixForm_Cq :: "ChModalAssembly \<Rightarrow> real mat"
  boundary_variables :: "ChAssembly \<Rightarrow> ChVariables list"
  Solve :: "ChModalSolveUndamped \<Rightarrow> real mat \<Rightarrow> real mat \<Rightarrow> real mat \<Rightarrow> complex mat \<times> complex mat \<times> real mat"
  qr_solver :: SparseQR
  ChStarMatrix33 :: "real mat \<Rightarrow> real mat"
  ChMatrix33 :: "real mat \<Rightarrow> real mat"
  Q_to_Rotv :: "real mat \<Rightarrow> real mat"
  custom_F_modal_callback :: "(real mat \<Rightarrow> ChModalAssembly \<Rightarrow> real mat) option"
  custom_F_full_callback :: "(real mat \<Rightarrow> ChModalAssembly \<Rightarrow> real mat) option"
  mass_center :: "ChModalAssembly \<Rightarrow> real mat"
  selection_matrix :: "ChModalAssembly \<Rightarrow> real mat"
  floating_frame :: "ChModalAssembly \<Rightarrow> ChFrameMoving"

text \<open>A method of the parent class run on the derived object.\<close>

definition with_base :: "ChAssembly \<Rightarrow> ChModalAssembly \<Rightarrow> ChModalAssembly" where
  "with_base a s = s\<lparr>
     offset_x := offset_x a, offset_w := offset_w a, offset_L := offset_L a,
     nbodies := nbodies a, nlinks := nlinks a, nmeshes := nmeshes a,
     nphysicsitems := nphysicsitems a, ncoords := ncoords a, ncoords_w := ncoords_w a,
     ndoc := ndoc a, ndoc_w := ndoc_w a, ndoc_w_C := ndoc_w_C a, ndoc_w_D := ndoc_w_D a,
     nsysvars := nsysvars a, nsysvars_w := nsysvars_w a, ndof := ndof a,
     bodylist := bodylist a, linklist := linklist a, meshlist := meshlist a,
     otherphysicslist := otherphysicslist a, ChTime := ChTime a\<rparr>"

definition parent :: "(ChAssembly \<Rightarrow> ChAssembly) \<Rightarrow> ChModalAssembly \<Rightarrow> ChModalAssembly" where
  "parent f s = with_base (f (ChAssembly.truncate s)) s"

section \<open>\<^verbatim>\<open>ChModalAssembly::Setup\<close>\<close>

text \<open>The offset an internal item gets: after all boundary items and the internal ones counted so far.\<close>

definition next_offset_x :: "ChModalAssembly \<Rightarrow> 32 word" where
  "next_offset_x s = offset_x s + word_of_int (n_boundary_coords s) + word_of_int (n_internal_coords s)"

definition next_offset_w :: "ChModalAssembly \<Rightarrow> 32 word" where
  "next_offset_w s = offset_w s + word_of_int (n_boundary_coords_w s) + word_of_int (n_internal_coords_w s)"

definition next_offset_L :: "ChModalAssembly \<Rightarrow> 32 word" where
  "next_offset_L s = offset_L s + word_of_int (n_boundary_doc_w s) + word_of_int (n_internal_doc_w s)"

text \<open>The loop over \<^verbatim>\<open>internal_bodylist\<close>; \<^verbatim>\<open>body->Setup()\<close> is a no-op.\<close>

fun Setup_internal_bodies :: "ChModalAssembly \<Rightarrow> ChBody list \<Rightarrow> ChModalAssembly \<times> ChBody list" where
  "Setup_internal_bodies s [] = (s, [])"
| "Setup_internal_bodies s (body # rest) =
    (if BodyFixed body then
       (let (s', bs) = Setup_internal_bodies s rest in (s', body # bs))
     else if Sleeping body then
       (let (s', bs) = Setup_internal_bodies s rest in (s', body # bs))
     else
       (let s1 = s\<lparr>n_internal_bodies := n_internal_bodies s + 1\<rparr>;
            body' = body\<lparr>offset_x := next_offset_x s1, offset_w := next_offset_w s1,
                         offset_L := next_offset_L s1\<rparr>;
            s2 = s1\<lparr>n_internal_coords := n_internal_coords s1 + DOF body',
                    n_internal_coords_w := n_internal_coords_w s1 + DOF_w body',
                    n_internal_doc_w := n_internal_doc_w s1 + DOC body'\<rparr>;
            (s', bs) = Setup_internal_bodies s2 rest
        in (s', body' # bs)))"

text \<open>The loop over \<^verbatim>\<open>internal_linklist\<close>.\<close>

fun Setup_internal_links :: "collaborators \<Rightarrow> ChModalAssembly \<Rightarrow> ChItem list \<Rightarrow> ChModalAssembly \<times> ChItem list" where
  "Setup_internal_links E s [] = (s, [])"
| "Setup_internal_links E s (link # rest) =
    (if Active link then
       (let s1 = s\<lparr>n_internal_links := n_internal_links s + 1\<rparr>;
            link' = link_Setup E (link\<lparr>offset_x := next_offset_x s1, offset_w := next_offset_w s1,
                                       offset_L := next_offset_L s1\<rparr>);
            s2 = s1\<lparr>n_internal_coords := n_internal_coords s1 + DOF link',
                    n_internal_coords_w := n_internal_coords_w s1 + DOF_w link',
                    n_internal_doc_w := n_internal_doc_w s1 + DOC link',
                    n_internal_doc_w_C := n_internal_doc_w_C s1 + DOC_c link',
                    n_internal_doc_w_D := n_internal_doc_w_D s1 + DOC_d link'\<rparr>;
            (s', ls) = Setup_internal_links E s2 rest
        in (s', link' # ls))
     else
       (let (s', ls) = Setup_internal_links E s rest in (s', link # ls)))"

text \<open>The loop over \<^verbatim>\<open>internal_meshlist\<close>.\<close>

fun Setup_internal_meshes :: "collaborators \<Rightarrow> ChModalAssembly \<Rightarrow> ChMesh list \<Rightarrow> ChModalAssembly \<times> ChMesh list" where
  "Setup_internal_meshes E s [] = (s, [])"
| "Setup_internal_meshes E s (mesh # rest) =
    (let s1 = s\<lparr>n_internal_meshes := n_internal_meshes s + 1\<rparr>;
         mesh' = mesh_Setup E (mesh\<lparr>offset_x := next_offset_x s1, offset_w := next_offset_w s1,
                                    offset_L := next_offset_L s1\<rparr>);
         s2 = s1\<lparr>n_internal_coords := n_internal_coords s1 + DOF mesh',
                 n_internal_coords_w := n_internal_coords_w s1 + DOF_w mesh',
                 n_internal_doc_w := n_internal_doc_w s1 + DOC mesh',
                 n_internal_doc_w_C := n_internal_doc_w_C s1 + DOC_c mesh',
                 n_internal_doc_w_D := n_internal_doc_w_D s1 + DOC_d mesh'\<rparr>;
         (s', ms) = Setup_internal_meshes E s2 rest
     in (s', mesh' # ms))"

text \<open>The loop over \<^verbatim>\<open>internal_otherphysicslist\<close>.\<close>

fun Setup_internal_items :: "collaborators \<Rightarrow> ChModalAssembly \<Rightarrow> ChItem list \<Rightarrow> ChModalAssembly \<times> ChItem list" where
  "Setup_internal_items E s [] = (s, [])"
| "Setup_internal_items E s (item # rest) =
    (let s1 = s\<lparr>n_internal_physicsitems := n_internal_physicsitems s + 1\<rparr>;
         item' = item_Setup E (item\<lparr>offset_x := next_offset_x s1, offset_w := next_offset_w s1,
                                    offset_L := next_offset_L s1\<rparr>);
         s2 = s1\<lparr>n_internal_coords := n_internal_coords s1 + DOF item',
                 n_internal_coords_w := n_internal_coords_w s1 + DOF_w item',
                 n_internal_doc_w := n_internal_doc_w s1 + DOC item',
                 n_internal_doc_w_C := n_internal_doc_w_C s1 + DOC_c item',
                 n_internal_doc_w_D := n_internal_doc_w_D s1 + DOC_d item'\<rparr>;
         (s', is) = Setup_internal_items E s2 rest
     in (s', item' # is))"

text \<open>The counters of the boundary part, copied from the parent's, and the internal ones reset.\<close>

definition Setup_boundary_counts :: "ChModalAssembly \<Rightarrow> ChModalAssembly" where
  "Setup_boundary_counts s = s\<lparr>
     n_boundary_bodies := nbodies s,
     n_boundary_links := nlinks s,
     n_boundary_meshes := nmeshes s,
     n_boundary_physicsitems := nphysicsitems s,
     n_boundary_coords := ncoords s,
     n_boundary_coords_w := ncoords_w s,
     n_boundary_doc := ndoc s,
     n_boundary_doc_w := ndoc_w s,
     n_boundary_doc_w_C := ndoc_w_C s,
     n_boundary_doc_w_D := ndoc_w_D s,
     n_boundary_sysvars := nsysvars s,
     n_boundary_sysvars_w := nsysvars_w s,
     n_boundary_dof := ndof s,
     n_internal_bodies := 0,
     n_internal_links := 0,
     n_internal_meshes := 0,
     n_internal_physicsitems := 0,
     n_internal_coords := 0,
     n_internal_coords_w := 0,
     n_internal_doc := 0,
     n_internal_doc_w := 0,
     n_internal_doc_w_C := 0,
     n_internal_doc_w_D := 0\<rparr>"

text \<open>The four loops over the internal items.\<close>

definition Setup_internal :: "collaborators \<Rightarrow> ChModalAssembly \<Rightarrow> ChModalAssembly" where
  "Setup_internal E s =
    (let (s, bs) = Setup_internal_bodies s (internal_bodylist s);
         s = s\<lparr>internal_bodylist := bs\<rparr>;
         (s, ls) = Setup_internal_links E s (internal_linklist s);
         s = s\<lparr>internal_linklist := ls\<rparr>;
         (s, ms) = Setup_internal_meshes E s (internal_meshlist s);
         s = s\<lparr>internal_meshlist := ms\<rparr>;
         (s, is) = Setup_internal_items E s (internal_otherphysicslist s);
         s = s\<lparr>internal_otherphysicslist := is\<rparr>
     in s)"

text \<open>The derived internal counters and the resized force vector.\<close>

definition Setup_internal_totals :: "ChModalAssembly \<Rightarrow> ChModalAssembly" where
  "Setup_internal_totals s =
    (let s = s\<lparr>n_internal_doc := n_internal_doc_w s + n_internal_bodies s\<rparr>;
         s = s\<lparr>n_internal_sysvars := n_internal_coords s + n_internal_doc s\<rparr>;
         s = s\<lparr>n_internal_sysvars_w := n_internal_coords_w s + n_internal_doc_w s\<rparr>;
         s = s\<lparr>n_internal_dof := n_internal_coords_w s - n_internal_doc_w s\<rparr>;
         s = s\<lparr>custom_F_full := Zero (nat (n_boundary_coords_w s + n_internal_coords_w s)) 1\<rparr>
     in s)"

text \<open>The counters of the entire assembly, in full and in modal mode.\<close>

definition Setup_assembly_totals :: "ChModalAssembly \<Rightarrow> ChModalAssembly" where
  "Setup_assembly_totals s =
    (if is_modal s = False then
       s\<lparr>ncoords := n_boundary_coords s + n_internal_coords s,
         ncoords_w := n_boundary_coords_w s + n_internal_coords_w s,
         ndoc := n_boundary_doc s + n_internal_doc s,
         ndoc_w := n_boundary_doc_w s + n_internal_doc_w s,
         ndoc_w_C := n_boundary_doc_w_C s + n_internal_doc_w_C s,
         ndoc_w_D := n_boundary_doc_w_D s + n_internal_doc_w_D s,
         nsysvars := n_boundary_sysvars s + n_internal_sysvars s,
         nsysvars_w := n_boundary_sysvars_w s + n_internal_sysvars_w s,
         ndof := n_boundary_dof s + n_internal_dof s,
         nbodies := nbodies s + n_internal_bodies s,
         nlinks := nlinks s + n_internal_links s,
         nmeshes := nmeshes s + n_internal_meshes s,
         nphysicsitems := nphysicsitems s + n_internal_physicsitems s\<rparr>
     else
       s\<lparr>ncoords := n_boundary_coords s + n_modes_coords_w s,
         ncoords_w := n_boundary_coords_w s + n_modes_coords_w s,
         ndoc := n_boundary_doc s,
         ndoc_w := n_boundary_doc_w s,
         ndoc_w_C := n_boundary_doc_w_C s,
         ndoc_w_D := n_boundary_doc_w_D s,
         nsysvars := n_boundary_sysvars s + n_modes_coords_w s,
         nsysvars_w := n_boundary_sysvars_w s + n_modes_coords_w s,
         ndof := n_boundary_dof s + n_modes_coords_w s,
         custom_F_modal := Zero (nat (n_boundary_coords_w s + n_modes_coords_w s)) 1\<rparr>)"

definition Setup :: "collaborators \<Rightarrow> ChModalAssembly \<Rightarrow> ChModalAssembly" where
  "Setup E s =
     Setup_assembly_totals (Setup_internal_totals (Setup_internal E
       (Setup_boundary_counts (parent (ChAssembly_Setup E) s))))"

section \<open>\<^verbatim>\<open>ChModalAssembly::DoModalReduction\<close>\<close>

text \<open>
  The damping model is an argument of the reduction: \<^verbatim>\<open>ComputeR(assembly, modal_M, modal_K,
  Psi, modal_R)\<close> gets the matrix \<^verbatim>\<open>modal_R\<close> by reference and leaves the damping matrix in it.
\<close>

type_synonym ChModalDamping =
  "ChModalAssembly \<Rightarrow> real mat \<Rightarrow> real mat \<Rightarrow> real mat \<Rightarrow> real mat \<Rightarrow> real mat"

text \<open>\<^verbatim>\<open>util_sparse_assembly_2x2symm\<close>: the square matrix \<open>H\<close> bordered with \<open>Cq\<close> and its transpose.\<close>

definition util_sparse_assembly_2x2symm :: "real mat \<Rightarrow> real mat \<Rightarrow> real mat" where
  "util_sparse_assembly_2x2symm H Cq =
    (let n_v = rows H; n_c = rows Cq in
     mk (n_v + n_c) (n_v + n_c)
       (\<lambda>i j. if i < n_v \<and> j < n_v then coeff H i j
              else if n_v \<le> i \<and> j < n_v then coeff Cq (i - n_v) j
              else if i < n_v \<and> n_v \<le> j then coeff Cq (j - n_v) i
              else 0))"

text \<open>The masses of the boundary bodies and of the nodes of the boundary meshes are reset.\<close>

definition reset_body_mass :: "ChBody \<Rightarrow> ChBody" where
  "reset_body_mass body = body\<lparr>Mass := 0, Inertia := Zero 3 3\<rparr>"

fun reset_node_mass :: "ChNodeFEA \<Rightarrow> ChNodeFEA" where
  "reset_node_mass (ChNodeFEAxyz m) = ChNodeFEAxyz 0"
| "reset_node_mass (ChNodeFEAxyzrot m J) = ChNodeFEAxyzrot 0 (setZero J)"
| "reset_node_mass ChNodeFEAother = ChNodeFEAother"

definition reset_mesh_mass :: "ChMesh \<Rightarrow> ChMesh" where
  "reset_mesh_mass mesh = mesh\<lparr>Nodes := map reset_node_mass (Nodes mesh)\<rparr>"

text \<open>
  The shapes that the block reads and the products of the reduction need (Eigen asserts
  them): the counters are not negative, the mode shapes have a row for every boundary and
  internal coordinate and a column for every mode, the local mass and stiffness matrices
  are square of that size, and the local constraint Jacobian has that many columns and a
  row for every boundary and internal constraint.
\<close>

definition DoModalReduction_shapes :: "ChModalAssembly \<Rightarrow> bool" where
  "DoModalReduction_shapes s =
    (0 \<le> n_boundary_coords_w s \<and> 0 \<le> n_internal_coords_w s \<and> 0 \<le> n_modes_coords_w s \<and>
     0 \<le> n_boundary_doc_w s \<and> 0 \<le> n_internal_doc_w s \<and>
     int (rows (modes_V s)) \<ge> n_boundary_coords_w s + n_internal_coords_w s \<and>
     int (cols (modes_V s)) \<ge> n_modes_coords_w s \<and>
     int (rows (full_K_loc s)) = n_boundary_coords_w s + n_internal_coords_w s \<and>
     int (cols (full_K_loc s)) = n_boundary_coords_w s + n_internal_coords_w s \<and>
     int (rows (full_M_loc s)) = n_boundary_coords_w s + n_internal_coords_w s \<and>
     int (cols (full_M_loc s)) = n_boundary_coords_w s + n_internal_coords_w s \<and>
     int (rows (full_Cq_loc s)) \<ge> n_boundary_doc_w s + n_internal_doc_w s \<and>
     int (cols (full_Cq_loc s)) = n_boundary_coords_w s + n_internal_coords_w s)"

text \<open>
  The loop that solves for the static modes, one boundary coordinate \<open>i\<close> at a time, and
  the loop that solves for the dynamic modes, one mode at a time. \<open>nid\<close> is
  \<^verbatim>\<open>n_internal_doc_w\<close>, \<open>ni\<close> is \<^verbatim>\<open>n_internal_coords_w\<close>.
\<close>

definition static_mode_step ::
  "SparseQR \<Rightarrow> real mat \<Rightarrow> real mat \<Rightarrow> real mat \<Rightarrow> nat \<Rightarrow> nat \<Rightarrow> real mat \<Rightarrow> nat \<Rightarrow> real mat" where
  "static_mode_step solver K_IIc_loc K_IB_loc Cq_IB_loc nid ni P i =
    (let rhs = (if nid \<noteq> 0 then stacked (col K_IB_loc i) (col Cq_IB_loc i) else col K_IB_loc i);
         x = qr_solve solver K_IIc_loc rhs
     in set_col P i (- head x ni))"

definition dynamic_mode_step ::
  "SparseQR \<Rightarrow> real mat \<Rightarrow> real mat \<Rightarrow> nat \<Rightarrow> nat \<Rightarrow> real mat \<Rightarrow> nat \<Rightarrow> real mat" where
  "dynamic_mode_step solver K_IIc_loc rhs_top nid ni P i =
    (let rhs = (if nid \<noteq> 0 then stacked (col rhs_top i) (Zero nid 1) else col rhs_top i);
         x = qr_solve solver K_IIc_loc rhs
     in set_col P i (- head x ni))"

text \<open>
  The blocks of the local stiffness matrix and constraint Jacobian that belong to the
  internal coordinates and constraints, and the bordered matrix \<^verbatim>\<open>K_IIc_loc\<close> that is
  factorized.
\<close>

definition K_II_loc :: "ChModalAssembly \<Rightarrow> real mat" where
  "K_II_loc s = block (full_K_loc s) (nat (n_boundary_coords_w s)) (nat (n_boundary_coords_w s))
     (nat (n_internal_coords_w s)) (nat (n_internal_coords_w s))"

definition Cq_II_loc :: "ChModalAssembly \<Rightarrow> real mat" where
  "Cq_II_loc s = block (full_Cq_loc s) (nat (n_boundary_doc_w s)) (nat (n_boundary_coords_w s))
     (nat (n_internal_doc_w s)) (nat (n_internal_coords_w s))"

definition K_IIc_loc :: "ChModalAssembly \<Rightarrow> real mat" where
  "K_IIc_loc s = util_sparse_assembly_2x2symm (K_II_loc s) (Cq_II_loc s)"

definition K_IB_loc :: "ChModalAssembly \<Rightarrow> real mat" where
  "K_IB_loc s = block (full_K_loc s) (nat (n_boundary_coords_w s)) 0
     (nat (n_internal_coords_w s)) (nat (n_boundary_coords_w s))"

definition Cq_IB_loc :: "ChModalAssembly \<Rightarrow> real mat" where
  "Cq_IB_loc s = block (full_Cq_loc s) (nat (n_boundary_doc_w s)) 0
     (nat (n_internal_doc_w s)) (nat (n_boundary_coords_w s))"

text \<open>
  The reduction, block by block as the source has it. The local matrices \<^verbatim>\<open>Psi_S_C\<close>,
  \<^verbatim>\<open>Psi_S_LambdaI\<close>, \<^verbatim>\<open>Psi_D_C\<close> and \<^verbatim>\<open>Psi_D_LambdaI\<close> are written and never read; they are
  left out. The status of the factorization is not read.
\<close>

text \<open>Matrix of static modes: \<^verbatim>\<open>Psi_S.setZero(ni, nb)\<close>, then one solve for every boundary coordinate.\<close>

definition reduction_static_modes :: "SparseQR \<Rightarrow> ChModalAssembly \<Rightarrow> ChModalAssembly" where
  "reduction_static_modes solver s =
    (let nb = nat (n_boundary_coords_w s); ni = nat (n_internal_coords_w s);
         nid = nat (n_internal_doc_w s)
     in s\<lparr>Psi_S := foldl (static_mode_step solver (K_IIc_loc s) (K_IB_loc s) (Cq_IB_loc s) nid ni)
                        (Zero ni nb) [0..<nb]\<rparr>)"

text \<open>Matrix of dynamic modes: \<^verbatim>\<open>Psi_D.setZero(ni, nm)\<close>, then one solve for every mode.\<close>

definition reduction_dynamic_modes :: "SparseQR \<Rightarrow> ChModalAssembly \<Rightarrow> ChModalAssembly" where
  "reduction_dynamic_modes solver s =
    (let nb = nat (n_boundary_coords_w s); ni = nat (n_internal_coords_w s);
         nm = nat (n_modes_coords_w s); nid = nat (n_internal_doc_w s);
         V_B = real_part (block (modes_V s) 0 0 nb nm);
         V_I = real_part (block (modes_V s) nb 0 ni nm);
         M_II_loc = block (full_M_loc s) nb nb ni ni;
         M_IB_loc = block (full_M_loc s) nb 0 ni nb;
         rhs_top = M_IB_loc * V_B + M_II_loc * V_I
     in s\<lparr>Psi_D := foldl (dynamic_mode_step solver (K_IIc_loc s) rhs_top nid ni)
                        (Zero ni nm) [0..<nm]\<rparr>)"

text \<open>The basis \<^verbatim>\<open>Psi = [I 0; Psi_S Psi_D]\<close>.\<close>

definition reduction_basis :: "ChModalAssembly \<Rightarrow> ChModalAssembly" where
  "reduction_basis s =
    (let nb = nat (n_boundary_coords_w s); nm = nat (n_modes_coords_w s)
     in s\<lparr>Psi := blocks2x2 (Identity nb nb) (Zero nb nm) (Psi_S s) (Psi_D s)\<rparr>)"

text \<open>The reduced mass, stiffness and constraint matrices, and the reduced damping matrix set to zero.\<close>

definition reduction_matrices :: "ChModalAssembly \<Rightarrow> ChModalAssembly" where
  "reduction_matrices s =
    (let s = s\<lparr>M_red := transposed (Psi s) * full_M_loc s * Psi s,
                K_red := transposed (Psi s) * full_K_loc s * Psi s,
                Cq_red := topRows (full_Cq_loc s) (nat (n_boundary_doc_w s)) * Psi s\<rparr>
     in s\<lparr>R_red := Zero (rows (M_red s)) (cols (M_red s))\<rparr>)"

text \<open>The masses of the boundary items are reset.\<close>

definition reduction_reset_masses :: "ChModalAssembly \<Rightarrow> ChModalAssembly" where
  "reduction_reset_masses s =
     s\<lparr>bodylist := map reset_body_mass (bodylist s), meshlist := map reset_mesh_mass (meshlist s)\<rparr>"

text \<open>
  The damping model computes \<^verbatim>\<open>R_red\<close>; the statement after the call,
  \<^verbatim>\<open>R_red.setZero(); // set zero for test temporarily\<close>, overwrites it.
\<close>

definition reduction_damping :: "ChModalDamping \<Rightarrow> ChModalAssembly \<Rightarrow> ChModalAssembly" where
  "reduction_damping damping_model s =
    (let s = s\<lparr>R_red := damping_model s (M_red s) (K_red s) (Psi s) (R_red s)\<rparr>
     in s\<lparr>R_red := setZero (R_red s)\<rparr>)"

text \<open>The results of the eigenvalue analysis are invalidated.\<close>

definition reduction_invalidate_modes :: "ChModalAssembly \<Rightarrow> ChModalAssembly" where
  "reduction_invalidate_modes s =
     s\<lparr>modes_damping_ratio := Zero 0 1, modes_eig := Zero 0 1, modes_freq := Zero 0 1,
       modes_V := Zero 0 0\<rparr>"

definition DoModalReduction :: "SparseQR \<Rightarrow> ChModalDamping \<Rightarrow> ChModalAssembly \<Rightarrow> ChModalAssembly option" where
  "DoModalReduction solver damping_model s =
    (if \<not> DoModalReduction_shapes s then None
     else Some (reduction_invalidate_modes (reduction_damping damping_model (reduction_reset_masses
            (reduction_matrices (reduction_basis (reduction_dynamic_modes solver
               (reduction_static_modes solver s))))))))"

text \<open>The state of \<^verbatim>\<open>Setup\<close> before the counters of the entire assembly are set.\<close>

definition before_totals :: "collaborators \<Rightarrow> ChModalAssembly \<Rightarrow> ChModalAssembly" where
  "before_totals E s = Setup_internal_totals (Setup_internal E (Setup_boundary_counts (parent (ChAssembly_Setup E) s)))"

section \<open>Gathering and incrementing the state\<close>

text \<open>
  The loops over one list of internal items. Bodies and links are visited only when
  \<^verbatim>\<open>IsActive()\<close> holds (\<open>only_active\<close>), meshes and other items always. The offsets are
  \<^verbatim>\<open>unsigned int\<close>: \<open>displ + offset\<close> wraps around.
\<close>

definition gather_loop ::
  "('a ChItem_scheme) item_methods \<Rightarrow> bool \<Rightarrow> 32 word \<Rightarrow> 32 word \<Rightarrow> 'a ChItem_scheme list \<Rightarrow>
     real mat \<times> real mat \<times> real \<Rightarrow> real mat \<times> real mat \<times> real" where
  "gather_loop M only_active displ_x displ_v items xvT =
     foldl (\<lambda>(x, v, T) it.
        if only_active then
          (if Active it then IntStateGather_of M it (displ_x + offset_x it) x (displ_v + offset_w it) v T
           else (x, v, T))
        else IntStateGather_of M it (displ_x + offset_x it) x (displ_v + offset_w it) v T)
       xvT items"

definition gather_acceleration_loop ::
  "('a ChItem_scheme) item_methods \<Rightarrow> bool \<Rightarrow> 32 word \<Rightarrow> 'a ChItem_scheme list \<Rightarrow> real mat \<Rightarrow> real mat" where
  "gather_acceleration_loop M only_active displ_a items acc =
     foldl (\<lambda>acc it.
        if only_active then
          (if Active it then IntStateGatherAcceleration_of M it (displ_a + offset_w it) acc else acc)
        else IntStateGatherAcceleration_of M it (displ_a + offset_w it) acc)
       acc items"



text \<open>
  \<^verbatim>\<open>IntStateGather(off_x, x, off_v, v, T)\<close> returns the vectors and the time it has written.
  In modal mode the modal coordinates follow the boundary coordinates.
\<close>

definition IntStateGather ::
  "collaborators \<Rightarrow> ChModalAssembly \<Rightarrow> 32 word \<Rightarrow> real mat \<Rightarrow> 32 word \<Rightarrow> real mat \<Rightarrow> real \<Rightarrow>
     real mat \<times> real mat \<times> real" where
  "IntStateGather E s off_x x off_v v T =
    (let xvT = ChAssembly_IntStateGather E (ChAssembly.truncate s) off_x x off_v v T;
         displ_x = off_x - offset_x s;
         displ_v = off_v - offset_w s
     in if is_modal s = False then
          gather_loop (others E) False displ_x displ_v (internal_otherphysicslist s)
            (gather_loop (meshes E) False displ_x displ_v (internal_meshlist s)
              (gather_loop (links E) True displ_x displ_v (internal_linklist s)
                (gather_loop (bodies E) True displ_x displ_v (internal_bodylist s) xvT)))
        else
          (set_segment (fst xvT) (unat (off_x + word_of_int (n_boundary_coords s))) (modal_q s),
           set_segment (fst (snd xvT)) (unat (off_v + word_of_int (n_boundary_coords_w s))) (modal_q_dt s),
           ChTime s))"

definition IntStateGatherAcceleration ::
  "collaborators \<Rightarrow> ChModalAssembly \<Rightarrow> 32 word \<Rightarrow> real mat \<Rightarrow> real mat" where
  "IntStateGatherAcceleration E s off_a acc =
    (let acc = ChAssembly_IntStateGatherAcceleration E (ChAssembly.truncate s) off_a acc;
         displ_a = off_a - offset_w s
     in if is_modal s = False then
          gather_acceleration_loop (others E) False displ_a (internal_otherphysicslist s)
            (gather_acceleration_loop (meshes E) False displ_a (internal_meshlist s)
              (gather_acceleration_loop (links E) True displ_a (internal_linklist s)
                (gather_acceleration_loop (bodies E) True displ_a (internal_bodylist s) acc)))
        else
          set_segment acc (unat (off_a + word_of_int (n_boundary_coords_w s))) (modal_q_dtdt s))"



text \<open>
  The snapshot of the reduced state that several methods fetch first:
  \<^verbatim>\<open>x_mod.setZero(bou_mod_coords); v_mod.setZero(bou_mod_coords_w); IntStateGather(0, x_mod,
  0, v_mod, fooT)\<close>. The time \<^verbatim>\<open>fooT\<close> is not initialised and not used; the model passes 0.
\<close>

definition x_mod :: "collaborators \<Rightarrow> ChModalAssembly \<Rightarrow> real mat" where
  "x_mod E s = fst (IntStateGather E s 0 (Zero (nat (n_boundary_coords s + n_modes_coords_w s)) 1)
                      0 (Zero (nat (n_boundary_coords_w s + n_modes_coords_w s)) 1) 0)"

definition v_mod :: "collaborators \<Rightarrow> ChModalAssembly \<Rightarrow> real mat" where
  "v_mod E s = fst (snd (IntStateGather E s 0 (Zero (nat (n_boundary_coords s + n_modes_coords_w s)) 1)
                      0 (Zero (nat (n_boundary_coords_w s + n_modes_coords_w s)) 1) 0))"

definition a_mod :: "collaborators \<Rightarrow> ChModalAssembly \<Rightarrow> real mat" where
  "a_mod E s = IntStateGatherAcceleration E s 0 (Zero (nat (n_boundary_coords_w s + n_modes_coords_w s)) 1)"

section \<open>\<^verbatim>\<open>ChModalAssembly::SetInternalStateWithModes\<close>\<close>









section \<open>The tangent matrices of the reduced assembly\<close>

text \<open>
  The shapes that \<^verbatim>\<open>SetupModalData\<close> and the reduction give to the modal data, which the
  products below need (Eigen asserts them), with \<open>nb\<close> boundary speeds, \<open>nm\<close> modes: the
  square matrices have \<open>nb + nm\<close> rows, the matrices of the frame \<open>6 + nm\<close> columns, the
  selection matrix is \<open>6 x nb\<close>, the modal coordinates have \<open>nm\<close> rows and the snapshots
  seven rows for every boundary node.
\<close>

definition square_modal :: "ChModalAssembly \<Rightarrow> real mat \<Rightarrow> bool" where
  "square_modal s M = (int (rows M) = n_boundary_coords_w s + n_modes_coords_w s \<and>
                       int (cols M) = n_boundary_coords_w s + n_modes_coords_w s)"

definition frame_modal :: "ChModalAssembly \<Rightarrow> real mat \<Rightarrow> bool" where
  "frame_modal s M = (int (rows M) = n_boundary_coords_w s + n_modes_coords_w s \<and>
                      int (cols M) = 6 + n_modes_coords_w s)"

definition modal_data_shapes :: "ChModalAssembly \<Rightarrow> bool" where
  "modal_data_shapes s =
    (0 \<le> n_boundary_coords s \<and> 0 \<le> n_boundary_coords_w s \<and> 0 \<le> n_modes_coords_w s \<and>
     0 \<le> n_boundary_doc_w s \<and>
     7 * (n_boundary_coords_w s sdiv 6) \<le> n_boundary_coords s \<and>
     7 * (n_boundary_coords_w s sdiv 6) \<le> int (rows (modes_assembly_x0 s)) \<and>
     int (rows (modal_q s)) = n_modes_coords_w s \<and> int (rows (modal_q_dt s)) = n_modes_coords_w s \<and>
     int (rows (modal_q_dtdt s)) = n_modes_coords_w s \<and>
     rows (R_F s) = 3 \<and> cols (R_F s) = 3 \<and> rows (wloc_F s) = 3 \<and>
     square_modal s (P_W s) \<and> square_modal s (Y s) \<and> square_modal s (M_red s) \<and>
     square_modal s (K_red s) \<and> square_modal s (R_red s) \<and> square_modal s (O_B s) \<and>
     square_modal s (O_F s) \<and> square_modal s (O_thetamom s) \<and> square_modal s (Kg_sup s) \<and>
     frame_modal s (V s) \<and> frame_modal s (V_acc s) \<and> frame_modal s (V_rmom s) \<and>
     frame_modal s (V_F1 s) \<and> frame_modal s (V_F2 s) \<and> frame_modal s (V_F3 s) \<and>
     int (rows (U s)) = 6 + n_modes_coords_w s \<and>
     int (cols (U s)) = n_boundary_coords_w s + n_modes_coords_w s \<and>
     rows (S s) = 6 \<and> int (cols (S s)) = n_boundary_coords_w s \<and>
     int (rows (Cq_red s)) = n_boundary_doc_w s \<and>
     int (cols (Cq_red s)) = n_boundary_coords_w s + n_modes_coords_w s)"

text \<open>The indices \<^verbatim>\<open>i_bou\<close> of \<^verbatim>\<open>for (int i_bou = 0; i_bou < n_boundary_coords_w / 6; i_bou++)\<close>.\<close>

definition boundary_nodes :: "ChModalAssembly \<Rightarrow> nat list" where
  "boundary_nodes s = [0..<nat (n_boundary_coords_w s sdiv 6)]"

text \<open>
  \<^verbatim>\<open>ComputeInertialKRMmatrix\<close>: the matrices of the frame are set to zero in their shape and
  filled node by node; the inertial mass, damping and stiffness matrices and the
  quadratic velocity term follow.
\<close>

definition ComputeInertialKRMmatrix :: "collaborators \<Rightarrow> ChModalAssembly \<Rightarrow> ChModalAssembly option" where
  "ComputeInertialKRMmatrix E s =
    (if \<not> modal_data_shapes s then None
     else
       let v = v_mod E s;
           a = a_mod E s;
           star = ChStarMatrix33 E;
           nodes = boundary_nodes s;
           V_new = foldl (\<lambda>M i. set_block M (6 * i) 3 (star (transposed (R_F s) * segment v (6 * i) 3)))
                     (setZero (V s)) nodes;
           O_B_new = foldl (\<lambda>M i. set_block M (6 * i + 3) (6 * i + 3) (star (segment v (6 * i + 3) 3)))
                     (setZero (O_B s)) nodes;
           O_F_new = foldl (\<lambda>M i. set_block M (6 * i) (6 * i) (star (wloc_F s)))
                     (setZero (O_F s)) nodes;
           momen = M_red s * (transposed (P_W s) * v);
           centr = M_red s * (transposed (P_W s) * a);
           momen_F = O_F_new * momen;
           coriolis = M_red s * (V_new * (U s * v));
           V_acc_new = foldl (\<lambda>M i. set_block M (6 * i) 3
                                (star (transposed (R_F s) * segment a (6 * i) 3)))
                         (setZero (V_acc s)) nodes;
           V_rmom_new = foldl (\<lambda>M i. set_block M (6 * i) 3 (star (segment momen (6 * i) 3)))
                         (setZero (V_rmom s)) nodes;
           O_thetamom_new = foldl (\<lambda>M i. set_block M (6 * i + 3) (6 * i + 3)
                                (star (segment momen (6 * i + 3) 3)))
                         (setZero (O_thetamom s)) nodes;
           V_F1_new = foldl (\<lambda>M i. set_block M (6 * i) 3 (star (segment centr (6 * i) 3)))
                         (setZero (V_F1 s)) nodes;
           V_F2_new = foldl (\<lambda>M i. set_block M (6 * i) 3 (star (segment momen_F (6 * i) 3)))
                         (setZero (V_F2 s)) nodes;
           V_F3_new = foldl (\<lambda>M i. set_block M (6 * i) 3 (star (segment coriolis (6 * i) 3)))
                         (setZero (V_F3 s)) nodes;
           M_sup_new = P_W s * M_red s * transposed (P_W s);
           Ri_1 = P_W s * (M_red s * V_new - V_rmom_new) * U s;
           Ri_sup_new = P_W s * (O_F_new * M_red s - M_red s * O_F_new) * transposed (P_W s) + Ri_1
                        - transposed Ri_1 + O_B_new * M_red s * transposed (P_W s) - O_thetamom_new;
           Ki_sup_new = P_W s * (O_F_new * M_red s - M_red s * O_F_new) * V_new * U s
                        - transposed (U s) * transposed V_new * M_red s * V_new * U s
                        + O_B_new * M_red s * V_new * U s
                        - P_W s * (V_F1_new + V_F2_new + V_F3_new) * U s
                        + P_W s * M_red s * V_acc_new * U s
                        + transposed (U s) * transposed V_rmom_new * V_new * U s;
           mat_F = P_W s * O_F_new * M_red s * transposed (P_W s);
           mat_B = O_B_new * M_red s * transposed (P_W s);
           mat_M = P_W s * M_red s * V_new * U s;
           g_quad_new = (mat_F + mat_B + mat_M - transposed mat_M) * v
       in Some (s\<lparr>V := V_new, O_B := O_B_new, O_F := O_F_new, V_acc := V_acc_new,
                   V_rmom := V_rmom_new, O_thetamom := O_thetamom_new, V_F1 := V_F1_new,
                   V_F2 := V_F2_new, V_F3 := V_F3_new, M_sup := M_sup_new, Ri_sup := Ri_sup_new,
                   Ki_sup := Ki_sup_new, g_quad := g_quad_new\<rparr>))"

text \<open>
  \<^verbatim>\<open>ComputeStiffnessMatrix\<close>: the local displacement of the boundary nodes and the modal
  amplitudes, the local internal forces, the material stiffness and the geometric
  stiffness of the reduced superelement.
\<close>

definition displ_loc :: "collaborators \<Rightarrow> ChModalAssembly \<Rightarrow> real mat" where
  "displ_loc E s =
    (let x = x_mod E s;
         F = floating_frame_F s; F0 = floating_frame_F0 s;
         d = Zero (nat (n_boundary_coords_w s + n_modes_coords_w s)) 1;
         d = set_segment d (rows d - nat (n_modes_coords_w s)) (modal_q s)
     in foldl (\<lambda>d i.
          let r_B = segment x (7 * i) 3;
              r_BF0 = transposed (Amatrix F0) * (segment (modes_assembly_x0 s) (7 * i) 3 - Pos F0);
              d = set_segment d (6 * i) (transposed (R_F s) * (r_B - Pos F) - r_BF0);
              quat_bou = segment x (7 * i + 3) 4;
              R_B = ChMatrix33 E quat_bou
          in set_segment d (6 * i + 3)
               (Q_to_Rotv E quat_bou - transposed R_B * (R_F s * Q_to_Rotv E (Rot F))))
        d (boundary_nodes s))"

definition ComputeStiffnessMatrix :: "collaborators \<Rightarrow> ChModalAssembly \<Rightarrow> ChModalAssembly option" where
  "ComputeStiffnessMatrix E s =
    (if \<not> modal_data_shapes s then None
     else
       let x = x_mod E s;
           star = ChStarMatrix33 E;
           F = floating_frame_F s;
           nb = nat (n_boundary_coords_w s);
           nodes = boundary_nodes s;
           g_loc_new = K_red s * displ_loc E s;
           Km_sup_new = transposed (Y s) * K_red s * Y s;
           F_loc = (\<lambda>i. segment g_loc_new (6 * i) 3);
           M_loc = (\<lambda>i. segment g_loc_new (6 * i + 3) 3);
           r_B = (\<lambda>i. segment x (7 * i) 3);
           R_B = (\<lambda>i. ChMatrix33 E (segment x (7 * i + 3) 4));
           Xi_F1 = foldl (\<lambda>X i. X + R_F s * star (F_loc i)) (Zero 3 3) nodes;
           Xi_F3 = foldl (\<lambda>X i. X + (star (F_loc i) * transposed (R_F s) * star (r_B i - Pos F) * R_F s
                                       - star (transposed (R_F s) * (R_B i * M_loc i))))
                     (Zero 3 3) nodes;
           Xi_H = foldl (\<lambda>X i. set_block
                                 (set_block X 3 (6 * i) (star (F_loc i) * transposed (R_F s)))
                                 3 (6 * i + 3) (transposed (R_F s) * (R_B i * star (M_loc i))))
                     (Zero 6 nb) nodes;
           Xi_V = foldl (\<lambda>X i. set_block X (6 * i) 3 (- R_F s * star (F_loc i))) (Zero nb 6) nodes;
           Xi_F2 = transposed Xi_F1;
           Xi_F = blocks2x2 (Zero 3 3) Xi_F1 Xi_F2 Xi_F3;
           Kg_sup_new = set_block (setZero (Kg_sup s)) 0 0
                          (transposed (S s) * Xi_F * S s + transposed (S s) * Xi_H + Xi_V * S s)
       in Some (s\<lparr>g_loc := g_loc_new, Km_sup := Km_sup_new, Kg_sup := Kg_sup_new\<rparr>))"

text \<open>\<^verbatim>\<open>ComputeDampingMatrix\<close>: the material damping of the reduced superelement.\<close>

definition ComputeDampingMatrix :: "ChModalAssembly \<Rightarrow> ChModalAssembly option" where
  "ComputeDampingMatrix s =
    (if \<not> (square_modal s (Y s) \<and> square_modal s (R_red s)) then None
     else Some (s\<lparr>Rm_sup := transposed (Y s) * R_red s * Y s\<rparr>))"

text \<open>\<^verbatim>\<open>ComputeModalKRMmatrix\<close>: the sums; the norms it logs are left out.\<close>

definition ComputeModalKRMmatrix :: "ChModalAssembly \<Rightarrow> ChModalAssembly option" where
  "ComputeModalKRMmatrix s =
    (if \<not> (rows (Kg_sup s) = rows (Km_sup s) \<and> cols (Kg_sup s) = cols (Km_sup s) \<and>
            rows (Ki_sup s) = rows (Km_sup s) \<and> cols (Ki_sup s) = cols (Km_sup s) \<and>
            rows (Ri_sup s) = rows (Rm_sup s) \<and> cols (Ri_sup s) = cols (Rm_sup s) \<and>
            cols (Cq_red s) = cols (P_W s)) then None
     else Some (s\<lparr>modal_M := M_sup s,
                  modal_K := Km_sup s + Kg_sup s + Ki_sup s,
                  modal_R := Rm_sup s + Ri_sup s,
                  modal_Cq := Cq_red s * transposed (P_W s)\<rparr>))"

text \<open>
  \<^verbatim>\<open>KRMmatricesLoad\<close>. In full mode the parent and the internal items load their own
  blocks, which the state does not hold. In modal mode the four matrices are computed
  again and combined into the block of the modal variables.
\<close>

definition KRMmatricesLoad ::
  "collaborators \<Rightarrow> real \<Rightarrow> real \<Rightarrow> real \<Rightarrow> ChModalAssembly \<Rightarrow> ChModalAssembly option" where
  "KRMmatricesLoad E Kfactor Rfactor Mfactor s =
    (if is_modal s = False then Some s
     else
       Option.bind (ComputeInertialKRMmatrix E s) (\<lambda>s.
       Option.bind (ComputeStiffnessMatrix E s) (\<lambda>s.
       Option.bind (ComputeDampingMatrix s) (\<lambda>s.
       Option.bind (ComputeModalKRMmatrix s) (\<lambda>s.
         if \<not> (rows (modal_R s) = rows (modal_K s) \<and> cols (modal_R s) = cols (modal_K s) \<and>
                rows (modal_M s) = rows (modal_K s) \<and> cols (modal_M s) = cols (modal_K s))
         then None
         else Some (s\<lparr>modal_Hblock := (modal_Hblock s)\<lparr>Kmatr :=
                 scaled (modal_K s) Kfactor + scaled (modal_R s) Rfactor
                 + scaled (modal_M s) Mfactor\<rparr>\<rparr>))))))"

section \<open>Concrete assemblies\<close>

text \<open>A frame at the origin with no rotation and no motion.\<close>

definition new_ChFrameMoving :: ChFrameMoving where
  "new_ChFrameMoving = \<lparr>Pos = Zero 3 1, Rot = of_rows 1 [[1], [0], [0], [0]], Amatrix = Identity 3 3,
     Pos_dt = Zero 3 1, Wvel_loc = Zero 3 1, Pos_dtdt = Zero 3 1, Wacc_loc = Zero 3 1\<rparr>"

text \<open>
  The assembly after construction: in full mode, internal nodes are updated, there are
  no items, and every counter is zero and every matrix empty.
\<close>

definition new_ChModalAssembly :: ChModalAssembly where
  "new_ChModalAssembly = \<lparr>
     offset_x = 0,
     offset_w = 0,
     offset_L = 0,
     nbodies = 0,
     nlinks = 0,
     nmeshes = 0,
     nphysicsitems = 0,
     ncoords = 0,
     ncoords_w = 0,
     ndoc = 0,
     ndoc_w = 0,
     ndoc_w_C = 0,
     ndoc_w_D = 0,
     nsysvars = 0,
     nsysvars_w = 0,
     ndof = 0,
     bodylist = [],
     linklist = [],
     meshlist = [],
     otherphysicslist = [],
     ChTime = 0,
     is_modal = False,
     internal_nodes_update = True,
     internal_bodylist = [],
     internal_linklist = [],
     internal_meshlist = [],
     internal_otherphysicslist = [],
     n_boundary_bodies = 0,
     n_boundary_links = 0,
     n_boundary_meshes = 0,
     n_boundary_physicsitems = 0,
     n_boundary_coords = 0,
     n_boundary_coords_w = 0,
     n_boundary_doc = 0,
     n_boundary_doc_w = 0,
     n_boundary_doc_w_C = 0,
     n_boundary_doc_w_D = 0,
     n_boundary_sysvars = 0,
     n_boundary_sysvars_w = 0,
     n_boundary_dof = 0,
     n_internal_bodies = 0,
     n_internal_links = 0,
     n_internal_meshes = 0,
     n_internal_physicsitems = 0,
     n_internal_coords = 0,
     n_internal_coords_w = 0,
     n_internal_doc = 0,
     n_internal_doc_w = 0,
     n_internal_doc_w_C = 0,
     n_internal_doc_w_D = 0,
     n_internal_sysvars = 0,
     n_internal_sysvars_w = 0,
     n_internal_dof = 0,
     n_modes_coords_w = 0,
     custom_F_modal = Zero 0 0,
     custom_F_full = Zero 0 0,
     modal_variables = None,
     modal_Hblock = \<lparr>variables = [], Kmatr = Zero 0 0\<rparr>,
     modal_q = Zero 0 0,
     modal_q_dt = Zero 0 0,
     modal_q_dtdt = Zero 0 0,
     full_assembly_x_old = Zero 0 0,
     modes_assembly_x0 = Zero 0 0,
     modes_V = Zero 0 0,
     modes_eig = Zero 0 0,
     modes_freq = Zero 0 0,
     modes_damping_ratio = Zero 0 0,
     com_x = Zero 0 0,
     floating_frame_F = new_ChFrameMoving,
     floating_frame_F0 = new_ChFrameMoving,
     R_F = Zero 0 0,
     wloc_F = Zero 0 0,
     S = Zero 0 0,
     U = Zero 0 0,
     P_B1 = Zero 0 0,
     P_B2 = Zero 0 0,
     P_I1 = Zero 0 0,
     P_I2 = Zero 0 0,
     P_W = Zero 0 0,
     Y = Zero 0 0,
     full_M_loc = Zero 0 0,
     full_K_loc = Zero 0 0,
     full_R_loc = Zero 0 0,
     full_Cq_loc = Zero 0 0,
     Psi = Zero 0 0,
     Psi_S = Zero 0 0,
     Psi_D = Zero 0 0,
     M_red = Zero 0 0,
     K_red = Zero 0 0,
     R_red = Zero 0 0,
     Cq_red = Zero 0 0,
     O_B = Zero 0 0,
     V = Zero 0 0,
     O_F = Zero 0 0,
     V_acc = Zero 0 0,
     V_rmom = Zero 0 0,
     O_thetamom = Zero 0 0,
     V_F1 = Zero 0 0,
     V_F2 = Zero 0 0,
     V_F3 = Zero 0 0,
     M_sup = Zero 0 0,
     Ri_sup = Zero 0 0,
     Ki_sup = Zero 0 0,
     Km_sup = Zero 0 0,
     Kg_sup = Zero 0 0,
     Rm_sup = Zero 0 0,
     g_loc = Zero 0 0,
     g_quad = Zero 0 0,
     modal_M = Zero 0 0,
     modal_K = Zero 0 0,
     modal_R = Zero 0 0,
     modal_Cq = Zero 0 0\<rparr>"

text \<open>A free rigid body: seven position coordinates, six velocity coordinates, no constraint.\<close>

definition free_body :: ChBody where
  "free_body = \<lparr>offset_x = 0, offset_w = 0, offset_L = 0, DOF = 7, DOF_w = 6, DOC = 0,
     DOC_c = 0, DOC_d = 0, Active = True, state_x = Zero 7 1, state_v = Zero 6 1, BodyFixed = False, Sleeping = False, Mass = 1,
     Inertia = Identity 3 3\<rparr>"

text \<open>A solver that reports a numerical issue and returns the zero vector.\<close>

definition zero_solver :: SparseQR where
  "zero_solver = \<lparr>qr_info = (\<lambda>K. NumericalIssue), qr_solve = (\<lambda>K rhs. Zero (cols K) 1)\<rparr>"

text \<open>Item methods that gather nothing and change nothing.\<close>

definition idle_methods :: "'i item_methods" where
  "idle_methods = \<lparr>
     SetupInitial_of = (\<lambda>it. it),
     Update_of = (\<lambda>it T full_update. it),
     IntStateGather_of = (\<lambda>it off_x x off_v v T. (x, v, T)),
     IntStateScatter_of = (\<lambda>it off_x x off_v v T full_update. it),
     IntStateGatherAcceleration_of = (\<lambda>it off_a a. a),
     IntStateIncrement_of = (\<lambda>it off_x x_new x off_v Dv. x_new),
     IntStateGetIncrement_of = (\<lambda>it off_x x_new x off_v Dv. Dv)\<rparr>"

text \<open>Collaborators that change nothing, and a modal solver that finds no mode.\<close>

definition idle_collaborators :: collaborators where
  "idle_collaborators = \<lparr>
     ChAssembly_Setup = (\<lambda>a. a),
     link_Setup = (\<lambda>l. l),
     mesh_Setup = (\<lambda>m. m),
     item_Setup = (\<lambda>i. i),
     ChAssembly_SetupInitial = (\<lambda>a. a),
     ChAssembly_Update = (\<lambda>update_assets a. a),
     ChAssembly_IntStateGather = (\<lambda>a off_x x off_v v T. (x, v, T)),
     ChAssembly_IntStateGatherAcceleration = (\<lambda>a off_a acc. acc),
     ChAssembly_IntStateIncrement = (\<lambda>a off_x x_new x off_v Dv. x_new),
     ChAssembly_IntStateGetIncrement = (\<lambda>a off_x x_new x off_v Dv. Dv),
     bodies = idle_methods,
     links = idle_methods,
     meshes = idle_methods,
     others = idle_methods,
     ConvertToMatrixForm = (\<lambda>Kfactor Rfactor Mfactor s. Zero (nat (ncoords_w s)) (nat (ncoords_w s))),
     ConvertToMatrixForm_Cq = (\<lambda>s. Zero (nat (ndoc_w s)) (nat (ncoords_w s))),
     boundary_variables = (\<lambda>a. []),
     Solve = (\<lambda>settings M K1 Cq. (Zero (rows M) 0, Zero 0 1, Zero 0 1)),
     qr_solver = zero_solver,
     ChStarMatrix33 = (\<lambda>v. Zero 3 3),
     ChMatrix33 = (\<lambda>q. Identity 3 3),
     Q_to_Rotv = (\<lambda>q. Zero 3 1),
     custom_F_modal_callback = None,
     custom_F_full_callback = None,
     mass_center = (\<lambda>s. Zero 3 1),
     selection_matrix = (\<lambda>s. Zero 6 (nat (n_boundary_coords_w s))),
     floating_frame = (\<lambda>s. new_ChFrameMoving)\<rparr>"

text \<open>Collaborators for an assembly with one free boundary body: the parent counts it.\<close>

definition one_boundary_body :: collaborators where
  "one_boundary_body = idle_collaborators\<lparr>
     ChAssembly_Setup := (\<lambda>a. a\<lparr>nbodies := 1, nlinks := 0, nmeshes := 0, nphysicsitems := 0,
        ncoords := 7, ncoords_w := 6, ndoc := 1, ndoc_w := 0, ndoc_w_C := 0, ndoc_w_D := 0,
        nsysvars := 8, nsysvars_w := 6, ndof := 6\<rparr>)\<rparr>"

text \<open>One internal free body, in full mode and in modal mode with three modes.\<close>

definition full_example :: ChModalAssembly where
  "full_example = new_ChModalAssembly\<lparr>internal_bodylist := [free_body]\<rparr>"

definition modal_example :: ChModalAssembly where
  "modal_example = full_example\<lparr>is_modal := True, n_modes_coords_w := 3\<rparr>"

text \<open>
  An assembly in modal mode with no boundary coordinate, one internal coordinate without
  stiffness and one mode. The bordered stiffness block is the 1 x 1 zero matrix.
\<close>

definition reduction_example :: ChModalAssembly where
  "reduction_example = new_ChModalAssembly\<lparr>is_modal := True, n_internal_coords_w := 1,
     n_modes_coords_w := 1, modes_V := of_rows 1 [[1]], full_M_loc := of_rows 1 [[2]],
     full_K_loc := of_rows 1 [[0]], full_Cq_loc := Zero 0 1\<rparr>"

text \<open>A damping model that returns the 1 x 1 matrix of the coefficient 1.\<close>

definition unit_damping :: ChModalDamping where
  "unit_damping = (\<lambda>assembly modal_M modal_K Psi modal_R. of_rows 1 [[1]])"





section \<open>Properties of \<^verbatim>\<open>Setup\<close>\<close>

lemmas example_defs = Setup_def Setup_assembly_totals_def Setup_internal_totals_def
  Setup_internal_def Setup_boundary_counts_def parent_def with_base_def modal_example_def
  full_example_def new_ChModalAssembly_def one_boundary_body_def idle_collaborators_def free_body_def
  ChAssembly.truncate_def Let_def next_offset_x_def next_offset_w_def next_offset_L_def

lemma is_modal_parent: "is_modal (parent f s) = is_modal s"
  by (simp add: parent_def with_base_def)

lemma parent_is_modal_update: "parent f (s\<lparr>is_modal := b\<rparr>) = (parent f s)\<lparr>is_modal := b\<rparr>"
  by (simp add: parent_def with_base_def ChAssembly.truncate_def)

lemma Setup_internal_bodies_mode:
  "t = s\<lparr>is_modal := b\<rparr> \<Longrightarrow> Setup_internal_bodies t bs =
     (fst (Setup_internal_bodies s bs)\<lparr>is_modal := b\<rparr>, snd (Setup_internal_bodies s bs))"
proof (induction bs arbitrary: s t)
  case Nil
  then show ?case by simp
next
  case (Cons body rest)
  show ?case
  proof (cases "BodyFixed body \<or> Sleeping body")
    case True
    then show ?thesis using Cons.IH[OF Cons.prems] by (auto simp: case_prod_beta)
  next
    case False
    let ?s2 = "s\<lparr>n_internal_bodies := n_internal_bodies s + 1,
                  n_internal_coords := n_internal_coords s + DOF body,
                  n_internal_coords_w := n_internal_coords_w s + DOF_w body,
                  n_internal_doc_w := n_internal_doc_w s + DOC body\<rparr>"
    let ?t2 = "t\<lparr>n_internal_bodies := n_internal_bodies t + 1,
                  n_internal_coords := n_internal_coords t + DOF body,
                  n_internal_coords_w := n_internal_coords_w t + DOF_w body,
                  n_internal_doc_w := n_internal_doc_w t + DOC body\<rparr>"
    have eq: "?t2 = ?s2\<lparr>is_modal := b\<rparr>" using Cons.prems by (cases s) simp
    have offs: "offset_x t = offset_x s" "offset_w t = offset_w s" "offset_L t = offset_L s"
      "n_boundary_coords t = n_boundary_coords s" "n_boundary_coords_w t = n_boundary_coords_w s"
      "n_boundary_doc_w t = n_boundary_doc_w s" "n_internal_coords t = n_internal_coords s"
      "n_internal_coords_w t = n_internal_coords_w s" "n_internal_doc_w t = n_internal_doc_w s"
      using Cons.prems by simp_all
    from False show ?thesis using Cons.IH[OF eq]
      by (simp add: case_prod_beta Let_def next_offset_x_def next_offset_w_def next_offset_L_def offs)
  qed
qed

lemma Setup_internal_links_mode:
  "t = s\<lparr>is_modal := b\<rparr> \<Longrightarrow> Setup_internal_links E t ls =
     (fst (Setup_internal_links E s ls)\<lparr>is_modal := b\<rparr>, snd (Setup_internal_links E s ls))"
proof (induction ls arbitrary: s t)
  case Nil
  then show ?case by simp
next
  case (Cons link rest)
  show ?case
  proof (cases "Active link")
    case False
    then show ?thesis using Cons.IH[OF Cons.prems] by (auto simp: case_prod_beta)
  next
    case True
    have offs: "offset_x t = offset_x s" "offset_w t = offset_w s" "offset_L t = offset_L s"
      "n_boundary_coords t = n_boundary_coords s" "n_boundary_coords_w t = n_boundary_coords_w s"
      "n_boundary_doc_w t = n_boundary_doc_w s" "n_internal_coords t = n_internal_coords s"
      "n_internal_coords_w t = n_internal_coords_w s" "n_internal_doc_w t = n_internal_doc_w s"
      using Cons.prems by simp_all
    define link' where "link' = link_Setup E (link\<lparr>offset_x := next_offset_x s, offset_w := next_offset_w s,
                                       offset_L := next_offset_L s\<rparr>)"
    let ?s2 = "s\<lparr>n_internal_links := n_internal_links s + 1,
                  n_internal_coords := n_internal_coords s + DOF link',
                  n_internal_coords_w := n_internal_coords_w s + DOF_w link',
                  n_internal_doc_w := n_internal_doc_w s + DOC link',
                  n_internal_doc_w_C := n_internal_doc_w_C s + DOC_c link',
                  n_internal_doc_w_D := n_internal_doc_w_D s + DOC_d link'\<rparr>"
    let ?t2 = "t\<lparr>n_internal_links := n_internal_links t + 1,
                  n_internal_coords := n_internal_coords t + DOF link',
                  n_internal_coords_w := n_internal_coords_w t + DOF_w link',
                  n_internal_doc_w := n_internal_doc_w t + DOC link',
                  n_internal_doc_w_C := n_internal_doc_w_C t + DOC_c link',
                  n_internal_doc_w_D := n_internal_doc_w_D t + DOC_d link'\<rparr>"
    have eq: "?t2 = ?s2\<lparr>is_modal := b\<rparr>" using Cons.prems by (cases s) simp
    have no: "next_offset_x t = next_offset_x s" "next_offset_w t = next_offset_w s" "next_offset_L t = next_offset_L s"
      by (simp_all add: next_offset_x_def next_offset_w_def next_offset_L_def offs)
    have no1: "next_offset_x (u\<lparr>n_internal_links := k\<rparr>) = next_offset_x u"
       "next_offset_w (u\<lparr>n_internal_links := k\<rparr>) = next_offset_w u"
       "next_offset_L (u\<lparr>n_internal_links := k\<rparr>) = next_offset_L u" for u k
      by (simp_all add: next_offset_x_def next_offset_w_def next_offset_L_def)
    from True show ?thesis using Cons.IH[OF eq]
      by (simp add: case_prod_beta Let_def no no1 link'_def[symmetric])
  qed
qed


lemma Setup_internal_meshes_mode:
  "t = s\<lparr>is_modal := b\<rparr> \<Longrightarrow> Setup_internal_meshes E t ms =
     (fst (Setup_internal_meshes E s ms)\<lparr>is_modal := b\<rparr>, snd (Setup_internal_meshes E s ms))"
proof (induction ms arbitrary: s t)
  case Nil
  then show ?case by simp
next
  case (Cons mesh rest)
  have offs: "offset_x t = offset_x s" "offset_w t = offset_w s" "offset_L t = offset_L s"
    "n_boundary_coords t = n_boundary_coords s" "n_boundary_coords_w t = n_boundary_coords_w s"
    "n_boundary_doc_w t = n_boundary_doc_w s" "n_internal_coords t = n_internal_coords s"
    "n_internal_coords_w t = n_internal_coords_w s" "n_internal_doc_w t = n_internal_doc_w s"
    using Cons.prems by simp_all
  define mesh' where "mesh' = mesh_Setup E (mesh\<lparr>offset_x := next_offset_x s, offset_w := next_offset_w s,
                                     offset_L := next_offset_L s\<rparr>)"
  let ?s2 = "s\<lparr>n_internal_meshes := n_internal_meshes s + 1,
                n_internal_coords := n_internal_coords s + DOF mesh',
                n_internal_coords_w := n_internal_coords_w s + DOF_w mesh',
                n_internal_doc_w := n_internal_doc_w s + DOC mesh',
                n_internal_doc_w_C := n_internal_doc_w_C s + DOC_c mesh',
                n_internal_doc_w_D := n_internal_doc_w_D s + DOC_d mesh'\<rparr>"
  let ?t2 = "t\<lparr>n_internal_meshes := n_internal_meshes t + 1,
                n_internal_coords := n_internal_coords t + DOF mesh',
                n_internal_coords_w := n_internal_coords_w t + DOF_w mesh',
                n_internal_doc_w := n_internal_doc_w t + DOC mesh',
                n_internal_doc_w_C := n_internal_doc_w_C t + DOC_c mesh',
                n_internal_doc_w_D := n_internal_doc_w_D t + DOC_d mesh'\<rparr>"
  have eq: "?t2 = ?s2\<lparr>is_modal := b\<rparr>" using Cons.prems by (cases s) simp
  have no: "next_offset_x t = next_offset_x s" "next_offset_w t = next_offset_w s" "next_offset_L t = next_offset_L s"
    by (simp_all add: next_offset_x_def next_offset_w_def next_offset_L_def offs)
  have no1: "next_offset_x (u\<lparr>n_internal_meshes := k\<rparr>) = next_offset_x u"
     "next_offset_w (u\<lparr>n_internal_meshes := k\<rparr>) = next_offset_w u"
     "next_offset_L (u\<lparr>n_internal_meshes := k\<rparr>) = next_offset_L u" for u k
    by (simp_all add: next_offset_x_def next_offset_w_def next_offset_L_def)
  show ?case using Cons.IH[OF eq]
    by (simp add: case_prod_beta Let_def no no1 mesh'_def[symmetric])
qed

lemma Setup_internal_items_mode:
  "t = s\<lparr>is_modal := b\<rparr> \<Longrightarrow> Setup_internal_items E t ms =
     (fst (Setup_internal_items E s ms)\<lparr>is_modal := b\<rparr>, snd (Setup_internal_items E s ms))"
proof (induction ms arbitrary: s t)
  case Nil
  then show ?case by simp
next
  case (Cons item rest)
  have offs: "offset_x t = offset_x s" "offset_w t = offset_w s" "offset_L t = offset_L s"
    "n_boundary_coords t = n_boundary_coords s" "n_boundary_coords_w t = n_boundary_coords_w s"
    "n_boundary_doc_w t = n_boundary_doc_w s" "n_internal_coords t = n_internal_coords s"
    "n_internal_coords_w t = n_internal_coords_w s" "n_internal_doc_w t = n_internal_doc_w s"
    using Cons.prems by simp_all
  define item' where "item' = item_Setup E (item\<lparr>offset_x := next_offset_x s, offset_w := next_offset_w s,
                                     offset_L := next_offset_L s\<rparr>)"
  let ?s2 = "s\<lparr>n_internal_physicsitems := n_internal_physicsitems s + 1,
                n_internal_coords := n_internal_coords s + DOF item',
                n_internal_coords_w := n_internal_coords_w s + DOF_w item',
                n_internal_doc_w := n_internal_doc_w s + DOC item',
                n_internal_doc_w_C := n_internal_doc_w_C s + DOC_c item',
                n_internal_doc_w_D := n_internal_doc_w_D s + DOC_d item'\<rparr>"
  let ?t2 = "t\<lparr>n_internal_physicsitems := n_internal_physicsitems t + 1,
                n_internal_coords := n_internal_coords t + DOF item',
                n_internal_coords_w := n_internal_coords_w t + DOF_w item',
                n_internal_doc_w := n_internal_doc_w t + DOC item',
                n_internal_doc_w_C := n_internal_doc_w_C t + DOC_c item',
                n_internal_doc_w_D := n_internal_doc_w_D t + DOC_d item'\<rparr>"
  have eq: "?t2 = ?s2\<lparr>is_modal := b\<rparr>" using Cons.prems by (cases s) simp
  have no: "next_offset_x t = next_offset_x s" "next_offset_w t = next_offset_w s" "next_offset_L t = next_offset_L s"
    by (simp_all add: next_offset_x_def next_offset_w_def next_offset_L_def offs)
  have no1: "next_offset_x (u\<lparr>n_internal_physicsitems := k\<rparr>) = next_offset_x u"
     "next_offset_w (u\<lparr>n_internal_physicsitems := k\<rparr>) = next_offset_w u"
     "next_offset_L (u\<lparr>n_internal_physicsitems := k\<rparr>) = next_offset_L u" for u k
    by (simp_all add: next_offset_x_def next_offset_w_def next_offset_L_def)
  show ?case using Cons.IH[OF eq]
    by (simp add: case_prod_beta Let_def no no1 item'_def[symmetric])
qed

lemma Setup_internal_mode:
  "Setup_internal E (s\<lparr>is_modal := b\<rparr>) = (Setup_internal E s)\<lparr>is_modal := b\<rparr>"
proof -
  define r1 where "r1 = Setup_internal_bodies s (internal_bodylist s)"
  define s1 where "s1 = (fst r1)\<lparr>internal_bodylist := snd r1\<rparr>"
  define r2 where "r2 = Setup_internal_links E s1 (internal_linklist s1)"
  define s2 where "s2 = (fst r2)\<lparr>internal_linklist := snd r2\<rparr>"
  define r3 where "r3 = Setup_internal_meshes E s2 (internal_meshlist s2)"
  define s3 where "s3 = (fst r3)\<lparr>internal_meshlist := snd r3\<rparr>"
  define r4 where "r4 = Setup_internal_items E s3 (internal_otherphysicslist s3)"
  define s4 where "s4 = (fst r4)\<lparr>internal_otherphysicslist := snd r4\<rparr>"
  have full: "Setup_internal E s = s4"
    by (simp add: Setup_internal_def case_prod_beta Let_def s4_def r4_def s3_def r3_def s2_def r2_def s1_def r1_def)
  define t0 where "t0 = s\<lparr>is_modal := b\<rparr>"
  define q1 where "q1 = Setup_internal_bodies t0 (internal_bodylist t0)"
  define t1 where "t1 = (fst q1)\<lparr>internal_bodylist := snd q1\<rparr>"
  define q2 where "q2 = Setup_internal_links E t1 (internal_linklist t1)"
  define t2 where "t2 = (fst q2)\<lparr>internal_linklist := snd q2\<rparr>"
  define q3 where "q3 = Setup_internal_meshes E t2 (internal_meshlist t2)"
  define t3 where "t3 = (fst q3)\<lparr>internal_meshlist := snd q3\<rparr>"
  define q4 where "q4 = Setup_internal_items E t3 (internal_otherphysicslist t3)"
  define t4 where "t4 = (fst q4)\<lparr>internal_otherphysicslist := snd q4\<rparr>"
  have modal: "Setup_internal E t0 = t4"
    by (simp add: Setup_internal_def case_prod_beta Let_def t4_def q4_def t3_def q3_def t2_def q2_def t1_def q1_def)
  have "internal_bodylist t0 = internal_bodylist s" by (simp add: t0_def)
  then have "q1 = (fst r1\<lparr>is_modal := b\<rparr>, snd r1)"
    unfolding q1_def r1_def using Setup_internal_bodies_mode[where t=t0 and s=s and b=b] by (simp add: t0_def)
  then have e1: "t1 = s1\<lparr>is_modal := b\<rparr>" by (simp add: t1_def s1_def)
  then have "internal_linklist t1 = internal_linklist s1" by simp
  then have "q2 = (fst r2\<lparr>is_modal := b\<rparr>, snd r2)"
    unfolding q2_def r2_def using Setup_internal_links_mode[OF e1] by simp
  then have e2: "t2 = s2\<lparr>is_modal := b\<rparr>" by (simp add: t2_def s2_def)
  then have "internal_meshlist t2 = internal_meshlist s2" by simp
  then have "q3 = (fst r3\<lparr>is_modal := b\<rparr>, snd r3)"
    unfolding q3_def r3_def using Setup_internal_meshes_mode[OF e2] by simp
  then have e3: "t3 = s3\<lparr>is_modal := b\<rparr>" by (simp add: t3_def s3_def)
  then have "internal_otherphysicslist t3 = internal_otherphysicslist s3" by simp
  then have "q4 = (fst r4\<lparr>is_modal := b\<rparr>, snd r4)"
    unfolding q4_def r4_def using Setup_internal_items_mode[OF e3] by simp
  then have e4: "t4 = s4\<lparr>is_modal := b\<rparr>" by (simp add: t4_def s4_def)
  show ?thesis using full modal e4 by (simp add: t0_def)
qed

lemma before_totals_mode:
  "before_totals E (s\<lparr>is_modal := b\<rparr>) = (before_totals E s)\<lparr>is_modal := b\<rparr>"
proof -
  have 1: "Setup_boundary_counts (u\<lparr>is_modal := b\<rparr>) = (Setup_boundary_counts u)\<lparr>is_modal := b\<rparr>" for u
    by (simp add: Setup_boundary_counts_def)
  have 2: "Setup_internal_totals (u\<lparr>is_modal := b\<rparr>) = (Setup_internal_totals u)\<lparr>is_modal := b\<rparr>" for u
    by (simp add: Setup_internal_totals_def Let_def)
  show ?thesis
    by (simp add: before_totals_def parent_is_modal_update 1 2 Setup_internal_mode)
qed

lemma Setup_internal_is_modal: "is_modal (Setup_internal E s) = is_modal s"
proof -
  have a: "is_modal (Setup_internal E (s\<lparr>is_modal := is_modal s\<rparr>)) = is_modal s"
    by (subst Setup_internal_mode) simp
  have b: "s\<lparr>is_modal := is_modal s\<rparr> = s" by simp
  show ?thesis using a unfolding b .
qed

lemma before_totals_is_modal: "is_modal (before_totals E s) = is_modal s"
proof -
  have 1: "is_modal (Setup_boundary_counts u) = is_modal u" for u
    by (simp add: Setup_boundary_counts_def)
  have 2: "is_modal (Setup_internal_totals u) = is_modal u" for u
    by (simp add: Setup_internal_totals_def Let_def)
  show ?thesis
    unfolding before_totals_def by (simp only: 1 2 Setup_internal_is_modal is_modal_parent)
qed

text \<open>
  Claim C7. After every call of \<^verbatim>\<open>Setup()\<close> the velocity-level coordinate count of the
  assembly is the boundary count plus the internal count in full mode, and the boundary
  count plus the number of modal coordinates in modal mode.
\<close>

theorem Setup_total_coords_w:
  "(\<not> is_modal (Setup E s) \<longrightarrow>
      ncoords_w (Setup E s) = n_boundary_coords_w (Setup E s) + n_internal_coords_w (Setup E s)) \<and>
   (is_modal (Setup E s) \<longrightarrow>
      ncoords_w (Setup E s) = n_boundary_coords_w (Setup E s) + n_modes_coords_w (Setup E s))"
proof -
  define p where "p = Setup_internal_totals (Setup_internal E (Setup_boundary_counts (parent (ChAssembly_Setup E) s)))"
  have 1: "Setup E s = Setup_assembly_totals p" by (simp add: Setup_def p_def)
  show ?thesis unfolding 1 by (cases "is_modal p") (simp_all add: Setup_assembly_totals_def)
qed


theorem Setup_total_coords_w_witness:
  "\<not> is_modal (Setup one_boundary_body full_example)
   \<and> ncoords_w (Setup one_boundary_body full_example) = 6 + 6
   \<and> n_boundary_coords_w (Setup one_boundary_body full_example) = 6
   \<and> n_internal_coords_w (Setup one_boundary_body full_example) = 6
   \<and> is_modal (Setup one_boundary_body modal_example)
   \<and> ncoords_w (Setup one_boundary_body modal_example) = 6 + 3
   \<and> n_boundary_coords_w (Setup one_boundary_body modal_example) = 6
   \<and> n_modes_coords_w (Setup one_boundary_body modal_example) = 3"
  using Setup_total_coords_w [of one_boundary_body full_example]
    Setup_total_coords_w [of one_boundary_body modal_example]
  by (simp add: example_defs)

text \<open>
  Claim C4, as stated: in modal mode \<^verbatim>\<open>Setup()\<close> skips the internal items, assigns them no
  offsets and does not count their coordinates. It fails: the four loops over the internal
  items run in both modes. In modal mode the internal body of the example is moved from
  offset 0 to the offsets after the boundary body, and its six coordinates are counted.
\<close>

theorem Setup_modal_skips_internal_counterexample:
  "is_modal modal_example
   \<and> map offset_x (internal_bodylist modal_example) = [0]
   \<and> map offset_w (internal_bodylist modal_example) = [0]
   \<and> map offset_x (internal_bodylist (Setup one_boundary_body modal_example)) = [7]
   \<and> map offset_w (internal_bodylist (Setup one_boundary_body modal_example)) = [6]
   \<and> n_internal_bodies (Setup one_boundary_body modal_example) = 1
   \<and> n_internal_coords (Setup one_boundary_body modal_example) = 7
   \<and> n_internal_coords_w (Setup one_boundary_body modal_example) = 6"
  by (simp add: example_defs)

text \<open>
  Claim C4, amended: in modal mode \<^verbatim>\<open>Setup()\<close> treats the internal items as in full mode
  (the same offsets are assigned, the same internal counters result); what leaves them
  out is the counters of the entire assembly, which are the boundary counters plus the
  number of modal coordinates.
\<close>

theorem Setup_modal_internal_items:
  assumes "is_modal s"
  shows "internal_bodylist (Setup E s) = internal_bodylist (Setup E (s\<lparr>is_modal := False\<rparr>))
    \<and> internal_linklist (Setup E s) = internal_linklist (Setup E (s\<lparr>is_modal := False\<rparr>))
    \<and> internal_meshlist (Setup E s) = internal_meshlist (Setup E (s\<lparr>is_modal := False\<rparr>))
    \<and> internal_otherphysicslist (Setup E s) = internal_otherphysicslist (Setup E (s\<lparr>is_modal := False\<rparr>))
    \<and> n_internal_bodies (Setup E s) = n_internal_bodies (Setup E (s\<lparr>is_modal := False\<rparr>))
    \<and> n_internal_links (Setup E s) = n_internal_links (Setup E (s\<lparr>is_modal := False\<rparr>))
    \<and> n_internal_meshes (Setup E s) = n_internal_meshes (Setup E (s\<lparr>is_modal := False\<rparr>))
    \<and> n_internal_physicsitems (Setup E s) = n_internal_physicsitems (Setup E (s\<lparr>is_modal := False\<rparr>))
    \<and> n_internal_coords (Setup E s) = n_internal_coords (Setup E (s\<lparr>is_modal := False\<rparr>))
    \<and> n_internal_coords_w (Setup E s) = n_internal_coords_w (Setup E (s\<lparr>is_modal := False\<rparr>))
    \<and> n_internal_doc (Setup E s) = n_internal_doc (Setup E (s\<lparr>is_modal := False\<rparr>))
    \<and> n_internal_doc_w (Setup E s) = n_internal_doc_w (Setup E (s\<lparr>is_modal := False\<rparr>))
    \<and> ncoords (Setup E s) = n_boundary_coords (Setup E s) + n_modes_coords_w (Setup E s)
    \<and> ncoords_w (Setup E s) = n_boundary_coords_w (Setup E s) + n_modes_coords_w (Setup E s)
    \<and> ndoc (Setup E s) = n_boundary_doc (Setup E s)
    \<and> ndoc_w (Setup E s) = n_boundary_doc_w (Setup E s)
    \<and> ndof (Setup E s) = n_boundary_dof (Setup E s) + n_modes_coords_w (Setup E s)"
proof -
  have m: "is_modal (before_totals E s)" using assms by (simp add: before_totals_is_modal)
  have 1: "Setup E s = Setup_assembly_totals (before_totals E s)"
    by (simp add: Setup_def before_totals_def)
  have 2: "Setup E (s\<lparr>is_modal := False\<rparr>) = Setup_assembly_totals ((before_totals E s)\<lparr>is_modal := False\<rparr>)"
    by (simp add: Setup_def before_totals_def[symmetric] before_totals_mode)
  show ?thesis unfolding 1 2 using m by (simp add: Setup_assembly_totals_def)
qed


theorem Setup_modal_internal_items_witness:
  "is_modal modal_example
   \<and> internal_bodylist (Setup one_boundary_body modal_example) =
       internal_bodylist (Setup one_boundary_body (modal_example\<lparr>is_modal := False\<rparr>))
   \<and> n_internal_coords_w (Setup one_boundary_body modal_example) =
       n_internal_coords_w (Setup one_boundary_body (modal_example\<lparr>is_modal := False\<rparr>))
   \<and> ncoords_w (Setup one_boundary_body modal_example) = 9"
proof -
  have h: "is_modal modal_example" by (simp add: example_defs)
  have c: "ncoords_w (Setup one_boundary_body modal_example) = 9" by (simp add: example_defs)
  show ?thesis using h c Setup_modal_internal_items [OF h, of one_boundary_body] by simp
qed

section \<open>Properties of \<^verbatim>\<open>DoModalReduction\<close>\<close>

lemmas mat_defs = Zero_def mk_def setZero_def Identity_def of_rows_def block_def col_def head_def
  segment_def set_col_def set_block_def stacked_def blocks2x2_def topRows_def transposed_def
  real_part_def times_mat_def plus_mat_def uminus_mat_def minus_mat_def

lemma reduction_static_modes_keeps [simp]:
  "n_boundary_coords_w (reduction_static_modes solver s) = n_boundary_coords_w s"
  "n_internal_coords_w (reduction_static_modes solver s) = n_internal_coords_w s"
  "n_modes_coords_w (reduction_static_modes solver s) = n_modes_coords_w s"
  "n_boundary_doc_w (reduction_static_modes solver s) = n_boundary_doc_w s"
  "n_internal_doc_w (reduction_static_modes solver s) = n_internal_doc_w s"
  "full_M_loc (reduction_static_modes solver s) = full_M_loc s"
  "full_K_loc (reduction_static_modes solver s) = full_K_loc s"
  "full_Cq_loc (reduction_static_modes solver s) = full_Cq_loc s"
  "modes_V (reduction_static_modes solver s) = modes_V s"
  "Psi_D (reduction_static_modes solver s) = Psi_D s"
  "Psi (reduction_static_modes solver s) = Psi s"
  "M_red (reduction_static_modes solver s) = M_red s"
  "K_red (reduction_static_modes solver s) = K_red s"
  "Cq_red (reduction_static_modes solver s) = Cq_red s"
  "R_red (reduction_static_modes solver s) = R_red s"
  "is_modal (reduction_static_modes solver s) = is_modal s"
  by (simp_all add: reduction_static_modes_def Let_def)

lemma reduction_dynamic_modes_keeps [simp]:
  "n_boundary_coords_w (reduction_dynamic_modes solver s) = n_boundary_coords_w s"
  "n_internal_coords_w (reduction_dynamic_modes solver s) = n_internal_coords_w s"
  "n_modes_coords_w (reduction_dynamic_modes solver s) = n_modes_coords_w s"
  "n_boundary_doc_w (reduction_dynamic_modes solver s) = n_boundary_doc_w s"
  "n_internal_doc_w (reduction_dynamic_modes solver s) = n_internal_doc_w s"
  "full_M_loc (reduction_dynamic_modes solver s) = full_M_loc s"
  "full_K_loc (reduction_dynamic_modes solver s) = full_K_loc s"
  "full_Cq_loc (reduction_dynamic_modes solver s) = full_Cq_loc s"
  "modes_V (reduction_dynamic_modes solver s) = modes_V s"
  "Psi_S (reduction_dynamic_modes solver s) = Psi_S s"
  "Psi (reduction_dynamic_modes solver s) = Psi s"
  "M_red (reduction_dynamic_modes solver s) = M_red s"
  "K_red (reduction_dynamic_modes solver s) = K_red s"
  "Cq_red (reduction_dynamic_modes solver s) = Cq_red s"
  "R_red (reduction_dynamic_modes solver s) = R_red s"
  "is_modal (reduction_dynamic_modes solver s) = is_modal s"
  by (simp_all add: reduction_dynamic_modes_def Let_def)

lemma reduction_basis_keeps [simp]:
  "n_boundary_coords_w (reduction_basis s) = n_boundary_coords_w s"
  "n_internal_coords_w (reduction_basis s) = n_internal_coords_w s"
  "n_modes_coords_w (reduction_basis s) = n_modes_coords_w s"
  "n_boundary_doc_w (reduction_basis s) = n_boundary_doc_w s"
  "n_internal_doc_w (reduction_basis s) = n_internal_doc_w s"
  "full_M_loc (reduction_basis s) = full_M_loc s"
  "full_K_loc (reduction_basis s) = full_K_loc s"
  "full_Cq_loc (reduction_basis s) = full_Cq_loc s"
  "modes_V (reduction_basis s) = modes_V s"
  "Psi_S (reduction_basis s) = Psi_S s"
  "Psi_D (reduction_basis s) = Psi_D s"
  "M_red (reduction_basis s) = M_red s"
  "K_red (reduction_basis s) = K_red s"
  "Cq_red (reduction_basis s) = Cq_red s"
  "R_red (reduction_basis s) = R_red s"
  "is_modal (reduction_basis s) = is_modal s"
  by (simp_all add: reduction_basis_def Let_def)

lemma reduction_matrices_keeps [simp]:
  "n_boundary_coords_w (reduction_matrices s) = n_boundary_coords_w s"
  "n_internal_coords_w (reduction_matrices s) = n_internal_coords_w s"
  "n_modes_coords_w (reduction_matrices s) = n_modes_coords_w s"
  "n_boundary_doc_w (reduction_matrices s) = n_boundary_doc_w s"
  "n_internal_doc_w (reduction_matrices s) = n_internal_doc_w s"
  "full_M_loc (reduction_matrices s) = full_M_loc s"
  "full_K_loc (reduction_matrices s) = full_K_loc s"
  "full_Cq_loc (reduction_matrices s) = full_Cq_loc s"
  "modes_V (reduction_matrices s) = modes_V s"
  "Psi_S (reduction_matrices s) = Psi_S s"
  "Psi_D (reduction_matrices s) = Psi_D s"
  "Psi (reduction_matrices s) = Psi s"
  "is_modal (reduction_matrices s) = is_modal s"
  by (simp_all add: reduction_matrices_def Let_def)

lemma reduction_reset_masses_keeps [simp]:
  "n_boundary_coords_w (reduction_reset_masses s) = n_boundary_coords_w s"
  "n_internal_coords_w (reduction_reset_masses s) = n_internal_coords_w s"
  "n_modes_coords_w (reduction_reset_masses s) = n_modes_coords_w s"
  "n_boundary_doc_w (reduction_reset_masses s) = n_boundary_doc_w s"
  "n_internal_doc_w (reduction_reset_masses s) = n_internal_doc_w s"
  "full_M_loc (reduction_reset_masses s) = full_M_loc s"
  "full_K_loc (reduction_reset_masses s) = full_K_loc s"
  "full_Cq_loc (reduction_reset_masses s) = full_Cq_loc s"
  "modes_V (reduction_reset_masses s) = modes_V s"
  "Psi_S (reduction_reset_masses s) = Psi_S s"
  "Psi_D (reduction_reset_masses s) = Psi_D s"
  "Psi (reduction_reset_masses s) = Psi s"
  "M_red (reduction_reset_masses s) = M_red s"
  "K_red (reduction_reset_masses s) = K_red s"
  "Cq_red (reduction_reset_masses s) = Cq_red s"
  "R_red (reduction_reset_masses s) = R_red s"
  "is_modal (reduction_reset_masses s) = is_modal s"
  by (simp_all add: reduction_reset_masses_def Let_def)

lemma reduction_damping_keeps [simp]:
  "n_boundary_coords_w (reduction_damping dm s) = n_boundary_coords_w s"
  "n_internal_coords_w (reduction_damping dm s) = n_internal_coords_w s"
  "n_modes_coords_w (reduction_damping dm s) = n_modes_coords_w s"
  "n_boundary_doc_w (reduction_damping dm s) = n_boundary_doc_w s"
  "n_internal_doc_w (reduction_damping dm s) = n_internal_doc_w s"
  "full_M_loc (reduction_damping dm s) = full_M_loc s"
  "full_K_loc (reduction_damping dm s) = full_K_loc s"
  "full_Cq_loc (reduction_damping dm s) = full_Cq_loc s"
  "modes_V (reduction_damping dm s) = modes_V s"
  "Psi_S (reduction_damping dm s) = Psi_S s"
  "Psi_D (reduction_damping dm s) = Psi_D s"
  "Psi (reduction_damping dm s) = Psi s"
  "M_red (reduction_damping dm s) = M_red s"
  "K_red (reduction_damping dm s) = K_red s"
  "Cq_red (reduction_damping dm s) = Cq_red s"
  "is_modal (reduction_damping dm s) = is_modal s"
  by (simp_all add: reduction_damping_def Let_def)

lemma reduction_invalidate_modes_keeps [simp]:
  "n_boundary_coords_w (reduction_invalidate_modes s) = n_boundary_coords_w s"
  "n_internal_coords_w (reduction_invalidate_modes s) = n_internal_coords_w s"
  "n_modes_coords_w (reduction_invalidate_modes s) = n_modes_coords_w s"
  "n_boundary_doc_w (reduction_invalidate_modes s) = n_boundary_doc_w s"
  "n_internal_doc_w (reduction_invalidate_modes s) = n_internal_doc_w s"
  "full_M_loc (reduction_invalidate_modes s) = full_M_loc s"
  "full_K_loc (reduction_invalidate_modes s) = full_K_loc s"
  "full_Cq_loc (reduction_invalidate_modes s) = full_Cq_loc s"
  "Psi_S (reduction_invalidate_modes s) = Psi_S s"
  "Psi_D (reduction_invalidate_modes s) = Psi_D s"
  "Psi (reduction_invalidate_modes s) = Psi s"
  "M_red (reduction_invalidate_modes s) = M_red s"
  "K_red (reduction_invalidate_modes s) = K_red s"
  "Cq_red (reduction_invalidate_modes s) = Cq_red s"
  "R_red (reduction_invalidate_modes s) = R_red s"
  "is_modal (reduction_invalidate_modes s) = is_modal s"
  by (simp_all add: reduction_invalidate_modes_def Let_def)

lemma DoModalReduction_defined: "DoModalReduction solver dm s \<noteq> None \<longleftrightarrow> DoModalReduction_shapes s"
  by (simp add: DoModalReduction_def)

lemma reduction_example_shapes: "DoModalReduction_shapes reduction_example"
  by (simp add: DoModalReduction_shapes_def reduction_example_def new_ChModalAssembly_def mat_defs)

lemma DoModalReduction_R_red_zero: "DoModalReduction solver dm s = Some s' \<Longrightarrow> R_red s' = Zero (rows (R_red s')) (cols (R_red s'))"
  by (auto simp: DoModalReduction_def reduction_damping_def Let_def setZero_def Zero_def mk_def split: if_splits)





lemma rows_set_col [simp]: "rows (set_col P i v) = rows P" "cols (set_col P i v) = cols P"
  by (simp_all add: set_col_def set_block_def)





lemma K_IIc_loc_static [simp]: "K_IIc_loc (reduction_static_modes solver s) = K_IIc_loc s"
  by (simp add: K_IIc_loc_def K_II_loc_def Cq_II_loc_def)

lemma modes_dynamic: "DoModalReduction solver dm s = Some s' \<Longrightarrow>
   Psi_D s' = foldl (dynamic_mode_step solver (K_IIc_loc s)
        (block (full_M_loc s) (nat (n_boundary_coords_w s)) 0 (nat (n_internal_coords_w s)) (nat (n_boundary_coords_w s)) *
           real_part (block (modes_V s) 0 0 (nat (n_boundary_coords_w s)) (nat (n_modes_coords_w s))) +
         block (full_M_loc s) (nat (n_boundary_coords_w s)) (nat (n_boundary_coords_w s)) (nat (n_internal_coords_w s)) (nat (n_internal_coords_w s)) *
           real_part (block (modes_V s) (nat (n_boundary_coords_w s)) 0 (nat (n_internal_coords_w s)) (nat (n_modes_coords_w s))))
        (nat (n_internal_doc_w s)) (nat (n_internal_coords_w s)))
        (Zero (nat (n_internal_coords_w s)) (nat (n_modes_coords_w s))) [0..<nat (n_modes_coords_w s)]"
  by (auto simp: DoModalReduction_def split: if_splits)
     (simp add: reduction_dynamic_modes_def Let_def)

text \<open>
  Claim C6. When the reduction completes, the mode set of the modal solver (eigenvalues,
  mode shapes, frequencies, damping ratios) is cleared: every one of the four is resized
  to zero.
\<close>

theorem DoModalReduction_invalidates_modes:
  "DoModalReduction solver dm s = Some s' \<Longrightarrow>
     modes_eig s' = Zero 0 1 \<and> modes_V s' = Zero 0 0 \<and> modes_freq s' = Zero 0 1 \<and>
     modes_damping_ratio s' = Zero 0 1 \<and>
     rows (modes_eig s') = 0 \<and> rows (modes_V s') = 0 \<and> cols (modes_V s') = 0 \<and>
     rows (modes_freq s') = 0 \<and> rows (modes_damping_ratio s') = 0"
  by (auto simp: DoModalReduction_def reduction_invalidate_modes_def Zero_def mk_def split: if_splits)

theorem DoModalReduction_invalidates_modes_witness:
  "DoModalReduction zero_solver unit_damping reduction_example \<noteq> None \<and>
   rows (modes_V reduction_example) = 1 \<and>
   modes_V (the (DoModalReduction zero_solver unit_damping reduction_example)) = Zero 0 0 \<and>
   modes_eig (the (DoModalReduction zero_solver unit_damping reduction_example)) = Zero 0 1 \<and>
   modes_freq (the (DoModalReduction zero_solver unit_damping reduction_example)) = Zero 0 1 \<and>
   modes_damping_ratio (the (DoModalReduction zero_solver unit_damping reduction_example)) = Zero 0 1"
proof -
  have d: "DoModalReduction zero_solver unit_damping reduction_example \<noteq> None"
    using DoModalReduction_defined [of zero_solver unit_damping reduction_example]
      reduction_example_shapes by blast
  then have h: "DoModalReduction zero_solver unit_damping reduction_example =
      Some (the (DoModalReduction zero_solver unit_damping reduction_example))" by simp
  have r: "rows (modes_V reduction_example) = 1"
    by (simp add: reduction_example_def of_rows_def mk_def)
  show ?thesis using d r DoModalReduction_invalidates_modes [OF h] by simp
qed




text \<open>
  Claim C5, at a failing input: the damping model returns the 1 x 1 matrix of the
  coefficient 1, and after the reduction the reduced damping matrix is the 1 x 1 zero
  matrix. The claim says that the matrix of the damping model is what is stored.
\<close>

theorem DoModalReduction_discards_damping:
  "coeff (unit_damping reduction_example (Zero 1 1) (Zero 1 1) (Zero 1 1) (Zero 1 1)) 0 0 = 1 \<and>
   map_option R_red (DoModalReduction zero_solver unit_damping reduction_example) = Some (Zero 1 1) \<and>
   coeff (Zero 1 1 :: real mat) 0 0 = 0"
  by (simp add: DoModalReduction_def reduction_example_shapes reduction_invalidate_modes_def
       reduction_damping_def unit_damping_def Let_def setZero_def of_rows_def mk_def Zero_def)

section \<open>Properties of the matrix operations\<close>

lemma rows_mk [simp]: "rows (mk r c f) = r" and cols_mk [simp]: "cols (mk r c f) = c"
  and coeff_mk: "coeff (mk r c f) i j = (if i < r \<and> j < c then f i j else 0)"
  by (simp_all add: mk_def)

lemma shape_times [simp]: "rows (A * B) = rows A" "cols (A * B) = cols B"
  by (simp_all add: times_mat_def)

lemma shape_plus [simp]: "rows (A + B) = rows A" "cols (A + B) = cols A"
  by (simp_all add: plus_mat_def)

lemma shape_transposed [simp]: "rows (transposed A) = cols A" "cols (transposed A) = rows A"
  by (simp_all add: transposed_def)

lemma shape_segment [simp]: "rows (segment v r n) = n" "cols (segment v r n) = 1"
  by (simp_all add: segment_def block_def)




lemma times_normal: "A * B = mk (rows (A * B)) (cols (A * B)) (coeff (A * (B::('a::comm_ring_1) mat)))"
  by (auto simp: times_mat_def mk_def fun_eq_iff)






section \<open>Properties of \<^verbatim>\<open>SetInternalStateWithModes\<close>\<close>







end
